theory Spec2Isabelle
  imports Complex_Main "HOL-Library.Word"
begin

section \<open>Numbers, strings and digests\<close>

text \<open>
  The program is JavaScript. A Number is modelled by the real it denotes (\<open>real\<close>); the one
  non-number the arithmetic can produce, NaN, is the value \<open>None\<close> of an option type
  wherever it can arise. Arithmetic is exact, except where the rounding of the IEEE doubles
  decides what the code does: the tolerance test of \<open>verifyCrashPoint\<close> and the stake amount
  and balance test of \<open>placeBet\<close> round with \<open>double\<close>, defined below. Integer counters
  (round numbers, millisecond clocks) are \<open>nat\<close> and \<open>int\<close>.

  The SHA-256 function of the runtime's \<open>crypto\<close> module is not code of the repository: every
  definition that hashes takes it as the parameter \<open>H\<close>, a function from the hashed string to
  the 256-bit digest.
\<close>

type_synonym sha256 = "string \<Rightarrow> 256 word"

text \<open>\<open>roundNumber.toString()\<close>: the decimal digits of a non-negative integer.\<close>

fun toString :: "nat \<Rightarrow> string" where
  "toString n =
     (if n < 10 then [char_of (48 + n)]
      else toString (n div 10) @ [char_of (48 + n mod 10)])"

declare toString.simps [simp del]

text \<open>\<open>digest('hex')\<close>: 64 lower-case hexadecimal digits, most significant first.\<close>

definition hex_char :: "nat \<Rightarrow> char" where
  "hex_char d = (if d < 10 then char_of (48 + d) else char_of (87 + d))"

definition digest_hex :: "256 word \<Rightarrow> string" where
  "digest_hex w = map (\<lambda>i. hex_char (unat w div 16 ^ (63 - i) mod 16)) [0..<64]"

text \<open>
  \<open>parseInt(s, 16)\<close>: the value of the longest prefix of hexadecimal digits, NaN when the
  string does not start with one. (Leading white space, a sign and a \<open>0x\<close> prefix, which
  \<open>parseInt\<close> also accepts, do not occur in a hex digest.)
\<close>

definition hex_val :: "char \<Rightarrow> nat option" where
  "hex_val c =
     (let k = (of_char c :: nat) in
      if 48 \<le> k \<and> k \<le> 57 then Some (k - 48)
      else if 97 \<le> k \<and> k \<le> 102 then Some (k - 87)
      else if 65 \<le> k \<and> k \<le> 70 then Some (k - 55)
      else None)"

fun parse_digits :: "nat \<Rightarrow> string \<Rightarrow> nat" where
  "parse_digits acc [] = acc"
| "parse_digits acc (c # cs) =
     (case hex_val c of None \<Rightarrow> acc | Some d \<Rightarrow> parse_digits (16 * acc + d) cs)"

definition parseInt16 :: "string \<Rightarrow> nat option" where
  "parseInt16 s =
     (case s of
        [] \<Rightarrow> None
      | c # cs \<Rightarrow> (case hex_val c of None \<Rightarrow> None | Some d \<Rightarrow> Some (parse_digits 0 s)))"

text \<open>The first 32 bits of a digest, read as an unsigned integer.\<close>

definition first32 :: "256 word \<Rightarrow> nat" where
  "first32 w = unat (drop_bit 224 w)"

section \<open>Rounding to a double\<close>

text \<open>
  The result of an arithmetic operation on Numbers is the exact result rounded to the nearest
  double, ties to the even significand. \<open>exponent x\<close> is the \<open>e\<close> with
  \<open>2^e \<le> |x| < 2^(e+1)\<close>; a double has 53 significant bits, so near \<open>x\<close> the doubles
  are the multiples of \<open>2^(e-52)\<close>, and below \<open>2^-1022\<close> the multiples of \<open>2^-1074\<close>.
  A result of magnitude \<open>2^1024\<close> or more is an infinity in the code and is rounded here
  like any other; it arises for no input used below.

  The rounding is written out where the outcome of a comparison depends on it: in the
  balance check of \<open>placeBet\<close> and in the tolerance test of \<open>verifyCrashPoint\<close>. The
  other operations are taken over the reals.
\<close>

fun bit_length :: "nat \<Rightarrow> nat" where
  "bit_length n = (if n = 0 then 0 else Suc (bit_length (n div 2)))"

declare bit_length.simps [simp del]

definition exponent :: "real \<Rightarrow> int" where
  "exponent x =
     (let a = \<bar>x\<bar> in
      if 1 \<le> a then int (bit_length (nat \<lfloor>a\<rfloor>)) - 1
      else - int (bit_length (nat (\<lceil>1 / a\<rceil> - 1))))"

definition ulp :: "real \<Rightarrow> real" where
  "ulp x =
     (let e = max (exponent x) (- 1022) - 52 in
      if 0 \<le> e then 2 ^ nat e else 1 / 2 ^ nat (- e))"

text \<open>Rounding to the nearest integer, ties to even.\<close>

definition rne :: "real \<Rightarrow> int" where
  "rne y =
     (let f = \<lfloor>y\<rfloor>; d = y - of_int f in
      if d < 1 / 2 then f
      else if 1 / 2 < d then f + 1
      else if even f then f else f + 1)"

definition double :: "real \<Rightarrow> real" where
  "double x = (if x = 0 then 0 else of_int (rne (x / ulp x)) * ulp x)"

section \<open>utils/cryptoUtils.js\<close>

text \<open>
  \<open>parseFloat(process.env.MAX_CRASH_MULTIPLIER) || 120\<close>: the argument is the result of
  \<open>parseFloat\<close>, \<open>None\<close> for NaN (variable unset or not a number); 0 and NaN are falsy.
\<close>

definition maxCrash_of :: "real option \<Rightarrow> real" where
  "maxCrash_of env = (case env of None \<Rightarrow> 120 | Some v \<Rightarrow> if v = 0 then 120 else v)"

text \<open>\<open>Math.round(x * 100) / 100\<close>; \<open>Math.round\<close> rounds halves up, as \<open>round\<close> does.\<close>

definition round2 :: "real \<Rightarrow> real" where
  "round2 x = real_of_int (round (x * 100)) / 100"

text \<open>
  \<open>1 / (1 - random * 0.99)\<close> clamped by \<open>Math.max(1, Math.min(maxCrash, _))\<close>. Division by
  zero is \<open>+Infinity\<close> in JavaScript (the numerator is 1), which \<open>Math.min\<close> replaces by
  \<open>maxCrash\<close>; HOL's \<open>1 / 0 = 0\<close> must not stand in for it.
\<close>

definition clampedCrash :: "real \<Rightarrow> real \<Rightarrow> real" where
  "clampedCrash maxCrash random =
     (if 1 - random * 0.99 = 0 then max 1 maxCrash
      else max 1 (min maxCrash (1 / (1 - random * 0.99))))"

definition generateCrashPoint :: "sha256 \<Rightarrow> real option \<Rightarrow> string \<Rightarrow> nat \<Rightarrow> real option" where
  "generateCrashPoint H env seed roundNumber =
     (let maxCrash = maxCrash_of env;
          hash = digest_hex (H (seed @ toString roundNumber));
          hashInt = parseInt16 (take 8 hash)
      in case hashInt of
           None \<Rightarrow> None
         | Some hashInt \<Rightarrow>
             (let random = real hashInt / 4294967295;
                  crashPoint = clampedCrash maxCrash random
              in Some (round2 crashPoint)))"

definition generateHash :: "sha256 \<Rightarrow> string \<Rightarrow> nat \<Rightarrow> string" where
  "generateHash H seed roundNumber = digest_hex (H (seed @ toString roundNumber))"

text \<open>
  \<open>Math.abs(calculatedCrashPoint - crashPoint) < 0.01\<close>, on doubles. The recomputed crash
  point \<open>k / 100\<close> is held as the double nearest to it (the last operation of
  \<open>generateCrashPoint\<close> divides the integer \<open>k\<close> by 100), the claimed value is a double,
  their difference is rounded, and the literal \<open>0.01\<close> is the double nearest to 1/100.
  A comparison with NaN is false.
\<close>

definition verifyCrashPoint :: "sha256 \<Rightarrow> real option \<Rightarrow> string \<Rightarrow> nat \<Rightarrow> real \<Rightarrow> bool" where
  "verifyCrashPoint H env seed roundNumber crashPoint =
     (case generateCrashPoint H env seed roundNumber of
        None \<Rightarrow> False
      | Some calculatedCrashPoint \<Rightarrow>
          \<bar>double (double calculatedCrashPoint - crashPoint)\<bar> < double (1 / 100))"

text \<open>
  The crash-point derivation in the words of the specification: \<open>U\<close> is the first 32 bits of
  the digest, \<open>r = U / 2^32\<close>, \<open>raw = 1 / (1 - 0.99 r)\<close>, clamped to \<open>[1, MAX_CRASH]\<close> and
  rounded to two decimal places.
\<close>

definition spec_crash_point :: "sha256 \<Rightarrow> real \<Rightarrow> string \<Rightarrow> nat \<Rightarrow> real" where
  "spec_crash_point H MAX_CRASH s n =
     (let digest = H (s @ toString n);
          U = first32 digest;
          r = real U / 2 ^ 32;
          raw = 1 / (1 - 0.99 * r)
      in round2 (max 1 (min MAX_CRASH raw)))"

text \<open>The derivation with the divisor the code uses, \<open>2^32 - 1\<close>.\<close>

definition crash_point_of :: "real \<Rightarrow> nat \<Rightarrow> real" where
  "crash_point_of MAX_CRASH U =
     (let r = real U / (2 ^ 32 - 1);
          raw = 1 / (1 - 0.99 * r)
      in round2 (max 1 (min MAX_CRASH raw)))"

section \<open>services/CryptoService.js: the price cache\<close>

text \<open>
  The cache is a \<open>Map\<close> from the key \<open>price_<asset>\<close> to an entry. A call sees the clock
  twice (at the freshness test and when it stores) and at most one reply of the upstream:
  \<open>None\<close> when the request is rejected (network error, timeout, error status), otherwise
  the \<open>data\<close> object, a map from asset ids to quotes. These are the environment of a call.
\<close>

record cache_entry =
  ce_price :: real
  ce_timestamp :: nat
  ce_lastUpdated :: nat

type_synonym price_cache = "string \<rightharpoonup> cache_entry"

record quote =
  usd :: real
  last_updated_at :: nat

record price_env =
  cacheDuration :: int
  now_check :: nat
  now_store :: nat
  reply :: "(string \<rightharpoonup> quote) option"

datatype price_error = RequestFailed | PriceNotFound

definition cacheKey :: "string \<Rightarrow> string" where
  "cacheKey cryptocurrency = ''price_'' @ cryptocurrency"

definition getSupportedCryptocurrencies :: "string list" where
  "getSupportedCryptocurrencies = [''bitcoin'', ''ethereum'']"

text \<open>
  What \<open>getCurrentPrice\<close> returns: a Number, or, from the lookup in the fallback object, a
  member that every object inherits from \<open>Object.prototype\<close> (a function, or the prototype
  itself under \<open>__proto__\<close>).
\<close>

datatype returned_value = Price real | Inherited string

definition object_prototype_members :: "string list" where
  "object_prototype_members =
     [''constructor'', ''__defineGetter__'', ''__defineSetter__'', ''hasOwnProperty'',
      ''__lookupGetter__'', ''__lookupSetter__'', ''isPrototypeOf'', ''propertyIsEnumerable'',
      ''toString'', ''valueOf'', ''__proto__'', ''toLocaleString'']"

text \<open>
  \<open>fallbackPrices[cryptocurrency]\<close> on the literal \<open>{ bitcoin: 67000, ethereum: 3500 }\<close>:
  its own two properties, then the inherited members, \<open>undefined\<close> (\<open>None\<close>) for any other
  key. Every value found is truthy.
\<close>

definition fallbackPrices :: "string \<Rightarrow> returned_value option" where
  "fallbackPrices key =
     (if key = ''bitcoin'' then Some (Price 67000)
      else if key = ''ethereum'' then Some (Price 3500)
      else if key \<in> set object_prototype_members then Some (Inherited key)
      else None)"

text \<open>\<open>cached && Date.now() - cached.timestamp < this.cacheDuration\<close>\<close>

definition fresh_entry :: "price_env \<Rightarrow> price_cache \<Rightarrow> string \<Rightarrow> cache_entry option" where
  "fresh_entry e cache cryptocurrency =
     (case cache (cacheKey cryptocurrency) of
        None \<Rightarrow> None
      | Some cached \<Rightarrow>
          if int (now_check e) - int (ce_timestamp cached) < cacheDuration e then Some cached
          else None)"

text \<open>
  The request and the test \<open>!response.data[c] || !response.data[c].usd\<close>: a price of 0 is
  falsy and counts as missing. The map holds the own properties of \<open>response.data\<close>; an
  inherited member has no \<open>usd\<close> and counts as missing too.
\<close>

definition fetch_quote :: "price_env \<Rightarrow> string \<Rightarrow> price_error + quote" where
  "fetch_quote e cryptocurrency =
     (case reply e of
        None \<Rightarrow> Inl RequestFailed
      | Some data \<Rightarrow>
          (case data cryptocurrency of
             None \<Rightarrow> Inl PriceNotFound
           | Some q \<Rightarrow> if usd q = 0 then Inl PriceNotFound else Inr q))"

text \<open>
  \<open>getCurrentPrice\<close>: the \<open>try\<close> block and its \<open>catch\<close>. The result is what the call returns
  or throws, the cache afterwards, and the number of upstream requests issued. The last
  line of the handler is \<open>fallbackPrices[cryptocurrency] || 1\<close>.
\<close>

definition getCurrentPrice ::
  "price_env \<Rightarrow> price_cache \<Rightarrow> string \<Rightarrow>
     (price_error + returned_value) \<times> price_cache \<times> nat" where
  "getCurrentPrice e cache cryptocurrency =
     (case fresh_entry e cache cryptocurrency of
        Some cached \<Rightarrow> (Inr (Price (ce_price cached)), cache, 0)
      | None \<Rightarrow>
          (case fetch_quote e cryptocurrency of
             Inr q \<Rightarrow>
               (Inr (Price (usd q)),
                cache(cacheKey cryptocurrency \<mapsto>
                  \<lparr>ce_price = usd q, ce_timestamp = now_store e,
                   ce_lastUpdated = last_updated_at q * 1000\<rparr>),
                1)
           | Inl err \<Rightarrow>
               (case cache (cacheKey cryptocurrency) of
                  Some cached \<Rightarrow> (Inr (Price (ce_price cached)), cache, 1)
                | None \<Rightarrow>
                    (Inr (case fallbackPrices cryptocurrency of
                            Some v \<Rightarrow> v
                          | None \<Rightarrow> Price 1),
                     cache, 1))))"

section \<open>models: Player, Transaction, GameRound\<close>

text \<open>
  The two asset tags of the schemas' \<open>enum: ['bitcoin', 'ethereum']\<close>. A wallet is the
  object indexed by them. Field names that the services also use for local variables, or that several schemas
  share, carry a prefix (\<open>ce_\<close>, \<open>b_\<close>, \<open>t_\<close>, \<open>tr_\<close>).
\<close>

datatype crypto = Bitcoin | Ethereum

fun crypto_name :: "crypto \<Rightarrow> string" where
  "crypto_name Bitcoin = ''bitcoin''"
| "crypto_name Ethereum = ''ethereum''"

text \<open>\<open>['bitcoin', 'ethereum'].includes(cryptocurrency)\<close>, with the tag it names.\<close>

definition crypto_of :: "string \<Rightarrow> crypto option" where
  "crypto_of s =
     (if s = ''bitcoin'' then Some Bitcoin
      else if s = ''ethereum'' then Some Ethereum
      else None)"

record player =
  playerId :: string
  username :: string
  wallet :: "crypto \<Rightarrow> real"
  totalBets :: nat
  totalWins :: nat
  totalLosses :: nat
  isActive :: bool

datatype transaction_type = Bet | Cashout | Deposit | Withdrawal

record transaction =
  transactionId :: string
  t_playerId :: string
  t_roundId :: string
  transactionType :: transaction_type
  t_usdAmount :: real
  t_cryptoAmount :: real
  t_cryptocurrency :: crypto
  t_priceAtTime :: real
  transactionHash :: string
  t_multiplier :: "real option"

record bet =
  b_playerId :: string
  b_usdAmount :: real
  b_cryptoAmount :: real
  b_cryptocurrency :: crypto
  b_priceAtTime :: real
  cashedOut :: bool
  cashoutMultiplier :: "real option"
  cashoutAmount :: "real option"
  b_timestamp :: nat

datatype round_status = waiting | active | crashed | completed

record gameRound =
  roundId :: string
  seed :: string
  hash :: string
  crashPoint :: real
  startTime :: nat
  endTime :: "nat option"
  status :: round_status
  bets :: "bet list"
  maxMultiplier :: real

section \<open>The state of the server and the environment of an operation\<close>

text \<open>
  One record holds what the services share: the stored collections (players, transactions,
  rounds), the price cache of the wallet service, the fields of the game service (its
  current round is the in-memory document, which may be ahead of the stored copy), and the
  messages handed to the broadcast hub, oldest first.

  Each operation is modelled as one atomic step; the interleaving of its \<open>await\<close>s with
  other operations is not modelled.
\<close>

datatype message =
    round_started string string nat
  | multiplier_update string "real option" nat
  | game_crashed string real string nat
  | bet_placed string string real real crypto
  | player_cashed_out string string real real crypto

record world =
  players :: "string \<rightharpoonup> player"
  transactions :: "transaction list"
  rounds :: "string \<rightharpoonup> gameRound"
  priceCache :: price_cache
  currentRound :: "gameRound option"
  roundCounter :: nat
  currentMultiplier :: "real option"
  gameStartTime :: "nat option"
  isGameActive :: bool
  broadcasts :: "message list"

text \<open>
  What an operation takes from outside: the clock, the values of \<open>crypto.randomBytes\<close> (the
  \<open>k\<close>-th call of the operation), whether each write to the store succeeds (a \<open>save()\<close>
  rejects when the store is unreachable or the document fails schema validation), and the
  environment of the price lookup.
\<close>

record env =
  now :: nat
  randomBytes :: "nat \<Rightarrow> string"
  player_save_ok :: "string \<Rightarrow> bool"
  transaction_save_ok :: "string \<Rightarrow> bool"
  round_save_ok :: "nat \<Rightarrow> bool"
  prices :: price_env

datatype error =
    AmountNotPositive
  | UnsupportedCryptocurrency
  | SamePlayer
  | SenderNotFound
  | ReceiverNotFound
  | PlayerNotFound
  | InsufficientBalance
  | NoRoundAcceptingBets
  | GameNotInProgress
  | NoActiveBet
  | PriceError price_error
  | TypeError
  | SaveRejected

section \<open>services/WalletService.js: transferCrypto\<close>

record transfer_result =
  tr_transferId :: string
  tr_fromBalance :: real
  tr_toBalance :: real
  tr_usdValue :: real
  tr_priceAtTime :: real

text \<open>
  The checks, then the two balances are changed on the loaded documents and saved one after
  the other, then the price is read and the two transaction records are saved. A rejected
  \<open>save()\<close> throws; what was saved before stays saved. A price that is not a Number makes
  the USD value NaN, which the first transaction record's \<open>save()\<close> rejects; the tag is one
  of the two assets there, so that this branch is never taken.
\<close>

definition transferCrypto ::
  "env \<Rightarrow> world \<Rightarrow> string \<Rightarrow> string \<Rightarrow> real \<Rightarrow> string \<Rightarrow> (error + transfer_result) \<times> world" where
  "transferCrypto e w fromPlayerId toPlayerId amount cryptocurrency =
     (if amount \<le> 0 then (Inl AmountNotPositive, w)
      else case crypto_of cryptocurrency of
        None \<Rightarrow> (Inl UnsupportedCryptocurrency, w)
      | Some c \<Rightarrow>
      if fromPlayerId = toPlayerId then (Inl SamePlayer, w)
      else case players w fromPlayerId of
        None \<Rightarrow> (Inl SenderNotFound, w)
      | Some fromPlayer \<Rightarrow>
      (case players w toPlayerId of
        None \<Rightarrow> (Inl ReceiverNotFound, w)
      | Some toPlayer \<Rightarrow>
      if wallet fromPlayer c < amount then (Inl InsufficientBalance, w)
      else
        let fromPlayer' = fromPlayer\<lparr>wallet := (wallet fromPlayer)(c := wallet fromPlayer c - amount)\<rparr>;
            toPlayer' = toPlayer\<lparr>wallet := (wallet toPlayer)(c := wallet toPlayer c + amount)\<rparr>
        in
        if \<not> player_save_ok e fromPlayerId then (Inl SaveRejected, w)
        else
          let w1 = w\<lparr>players := (players w)(fromPlayerId \<mapsto> fromPlayer')\<rparr> in
          if \<not> player_save_ok e toPlayerId then (Inl SaveRejected, w1)
          else
            let w2 = w1\<lparr>players := (players w1)(toPlayerId \<mapsto> toPlayer')\<rparr>;
                (looked, cache', requests) = getCurrentPrice (prices e) (priceCache w2) cryptocurrency;
                w3 = w2\<lparr>priceCache := cache'\<rparr>
            in
            (case looked of
               Inl err \<Rightarrow> (Inl (PriceError err), w3)
             | Inr (Inherited m) \<Rightarrow> (Inl SaveRejected, w3)
             | Inr (Price price) \<Rightarrow>
                 let usdValue = amount * price;
                     transferId = randomBytes e 0;
                     fromTransaction =
                       \<lparr>transactionId = randomBytes e 1, t_playerId = fromPlayerId,
                        t_roundId = ''transfer_'' @ transferId, transactionType = Withdrawal,
                        t_usdAmount = usdValue, t_cryptoAmount = amount, t_cryptocurrency = c,
                        t_priceAtTime = price, transactionHash = transferId,
                        t_multiplier = None\<rparr>;
                     toTransaction =
                       \<lparr>transactionId = randomBytes e 2, t_playerId = toPlayerId,
                        t_roundId = ''transfer_'' @ transferId, transactionType = Deposit,
                        t_usdAmount = usdValue, t_cryptoAmount = amount, t_cryptocurrency = c,
                        t_priceAtTime = price, transactionHash = transferId,
                        t_multiplier = None\<rparr>
                 in
                 if \<not> transaction_save_ok e (transactionId fromTransaction)
                 then (Inl SaveRejected, w3)
                 else
                   let w4 = w3\<lparr>transactions := transactions w3 @ [fromTransaction]\<rparr> in
                   if \<not> transaction_save_ok e (transactionId toTransaction)
                   then (Inl SaveRejected, w4)
                   else
                     (Inr \<lparr>tr_transferId = transferId,
                           tr_fromBalance = wallet fromPlayer' c,
                           tr_toBalance = wallet toPlayer' c,
                           tr_usdValue = usdValue, tr_priceAtTime = price\<rparr>,
                      w4\<lparr>transactions := transactions w4 @ [toTransaction]\<rparr>))))"

section \<open>services/GameService.js\<close>

record bet_result =
  br_bet :: bet
  br_transaction :: string

record cashout_result =
  co_multiplier :: real
  co_amount :: real
  co_cryptoAmount :: real
  co_transaction :: string

text \<open>
  \<open>placeBet\<close>. The price comes from a \<open>CryptoService\<close> created for the call, whose cache is
  empty. \<open>cryptoAmount\<close> is the double that \<open>usdAmount / price\<close> evaluates to; it is what
  the balance is compared with, what is subtracted from it (the difference rounded again) and
  what the wager records. With a price of 0 it is \<open>+Infinity\<close> (the amount is positive
  there), which no balance reaches. A price that is not a Number makes it NaN and the
  balance NaN, which the player's \<open>save()\<close> rejects; the tag is one of the two assets, so
  that this branch is never taken. The writes are indexed by their place in the operation.
\<close>

definition placeBet ::
  "env \<Rightarrow> world \<Rightarrow> string \<Rightarrow> real \<Rightarrow> crypto \<Rightarrow> (error + bet_result) \<times> world" where
  "placeBet e w pid usdAmount cryptocurrency =
     (case currentRound w of
        None \<Rightarrow> (Inl NoRoundAcceptingBets, w)
      | Some r \<Rightarrow>
      if status r \<noteq> waiting then (Inl NoRoundAcceptingBets, w)
      else if usdAmount \<le> 0 then (Inl AmountNotPositive, w)
      else
        (case fst (getCurrentPrice (prices e) Map.empty (crypto_name cryptocurrency)) of
           Inl err \<Rightarrow> (Inl (PriceError err), w)
         | Inr (Inherited m) \<Rightarrow>
         (case players w pid of
            None \<Rightarrow> (Inl PlayerNotFound, w)
          | Some player \<Rightarrow> (Inl SaveRejected, w))
         | Inr (Price price) \<Rightarrow>
         (case players w pid of
            None \<Rightarrow> (Inl PlayerNotFound, w)
          | Some player \<Rightarrow>
          if price = 0 \<or> wallet player cryptocurrency < double (usdAmount / price)
          then (Inl InsufficientBalance, w)
          else
            let cryptoAmount = double (usdAmount / price);
                player' = player\<lparr>wallet :=
                  (wallet player)(cryptocurrency :=
                     double (wallet player cryptocurrency - cryptoAmount))\<rparr>
            in
            if \<not> player_save_ok e pid then (Inl SaveRejected, w)
            else
              let w1 = w\<lparr>players := (players w)(pid \<mapsto> player')\<rparr>;
                  bet = \<lparr>b_playerId = pid, b_usdAmount = usdAmount,
                         b_cryptoAmount = cryptoAmount, b_cryptocurrency = cryptocurrency,
                         b_priceAtTime = price, cashedOut = False, cashoutMultiplier = None,
                         cashoutAmount = None, b_timestamp = now e\<rparr>;
                  r' = r\<lparr>bets := bets r @ [bet]\<rparr>;
                  w2 = w1\<lparr>currentRound := Some r'\<rparr>
              in
              if \<not> round_save_ok e 0 then (Inl SaveRejected, w2)
              else
                let w3 = w2\<lparr>rounds := (rounds w2)(roundId r' \<mapsto> r')\<rparr>;
                    tx = \<lparr>transactionId = randomBytes e 0, t_playerId = pid,
                          t_roundId = roundId r', transactionType = Bet,
                          t_usdAmount = usdAmount, t_cryptoAmount = cryptoAmount,
                          t_cryptocurrency = cryptocurrency, t_priceAtTime = price,
                          transactionHash = randomBytes e 1, t_multiplier = None\<rparr>
                in
                if \<not> transaction_save_ok e (transactionId tx) then (Inl SaveRejected, w3)
                else
                  (Inr \<lparr>br_bet = bet, br_transaction = transactionId tx\<rparr>,
                   w3\<lparr>transactions := transactions w3 @ [tx],
                      broadcasts := broadcasts w3 @
                        [bet_placed (roundId r') pid usdAmount cryptoAmount cryptocurrency]\<rparr>))))"

text \<open>\<open>b.playerId === playerId && !b.cashedOut\<close>\<close>

definition openBet :: "string \<Rightarrow> bet \<Rightarrow> bool" where
  "openBet pid b \<longleftrightarrow> b_playerId b = pid \<and> \<not> cashedOut b"

text \<open>
  \<open>Array.find\<close> returns the first matching element itself; the assignments to it change the
  round's list in place.
\<close>

fun update_first :: "('a \<Rightarrow> bool) \<Rightarrow> ('a \<Rightarrow> 'a) \<Rightarrow> 'a list \<Rightarrow> 'a list" where
  "update_first P f [] = []"
| "update_first P f (x # xs) = (if P x then f x # xs else x # update_first P f xs)"

definition markCashedOut :: "real option \<Rightarrow> bet \<Rightarrow> bet" where
  "markCashedOut m b =
     b\<lparr>cashedOut := True, cashoutMultiplier := m,
       cashoutAmount := map_option (\<lambda>x. b_cryptoAmount b * x) m\<rparr>"

text \<open>
  \<open>cashOut\<close>. When the multiplier is NaN the bet is flagged in memory and the save of the
  round is rejected (\<open>cashoutMultiplier\<close> is a Number with \<open>min: 1\<close>). A player that is not
  found makes \<open>player.wallet\<close> a TypeError, after the round was saved.
\<close>

definition cashOut :: "env \<Rightarrow> world \<Rightarrow> string \<Rightarrow> (error + cashout_result) \<times> world" where
  "cashOut e w pid =
     (case currentRound w of
        None \<Rightarrow> (Inl GameNotInProgress, w)
      | Some r \<Rightarrow>
      if \<not> isGameActive w then (Inl GameNotInProgress, w)
      else
        (case find (openBet pid) (bets r) of
           None \<Rightarrow> (Inl NoActiveBet, w)
         | Some bet \<Rightarrow>
           let r' = r\<lparr>bets :=
                 update_first (openBet pid) (markCashedOut (currentMultiplier w)) (bets r)\<rparr>;
               w1 = w\<lparr>currentRound := Some r'\<rparr>
           in
           (case currentMultiplier w of
              None \<Rightarrow> (Inl SaveRejected, w1)
            | Some m \<Rightarrow>
              let cashoutCryptoAmount = b_cryptoAmount bet * m;
                  cashoutUsdAmount = b_usdAmount bet * m
              in
              if \<not> round_save_ok e 0 then (Inl SaveRejected, w1)
              else
                let w2 = w1\<lparr>rounds := (rounds w1)(roundId r' \<mapsto> r')\<rparr> in
                (case players w2 pid of
                   None \<Rightarrow> (Inl TypeError, w2)
                 | Some player \<Rightarrow>
                   let player' = player\<lparr>wallet :=
                           (wallet player)(b_cryptocurrency bet :=
                              wallet player (b_cryptocurrency bet) + cashoutCryptoAmount),
                         totalWins := totalWins player + 1,
                         totalBets := totalBets player + 1\<rparr>
                   in
                   if \<not> player_save_ok e pid then (Inl SaveRejected, w2)
                   else
                     let w3 = w2\<lparr>players := (players w2)(pid \<mapsto> player')\<rparr>;
                         tx = \<lparr>transactionId = randomBytes e 0, t_playerId = pid,
                               t_roundId = roundId r', transactionType = Cashout,
                               t_usdAmount = cashoutUsdAmount,
                               t_cryptoAmount = cashoutCryptoAmount,
                               t_cryptocurrency = b_cryptocurrency bet,
                               t_priceAtTime = b_priceAtTime bet,
                               transactionHash = randomBytes e 1, t_multiplier = Some m\<rparr>
                     in
                     if \<not> transaction_save_ok e (transactionId tx) then (Inl SaveRejected, w3)
                     else
                       (Inr \<lparr>co_multiplier = m, co_amount = cashoutUsdAmount,
                             co_cryptoAmount = cashoutCryptoAmount,
                             co_transaction = transactionId tx\<rparr>,
                        w3\<lparr>transactions := transactions w3 @ [tx],
                           broadcasts := broadcasts w3 @
                             [player_cashed_out (roundId r') pid m cashoutUsdAmount
                                (b_cryptocurrency bet)]\<rparr>)))))"

text \<open>
  \<open>processLostBets\<close>: one \<open>findOneAndUpdate\<close> with \<open>$inc\<close> per bet not cashed out; a player
  that is not found is skipped and a rejected update is caught and logged.
\<close>

fun processLostBets :: "env \<Rightarrow> bet list \<Rightarrow> (string \<rightharpoonup> player) \<Rightarrow> (string \<rightharpoonup> player)" where
  "processLostBets e [] ps = ps"
| "processLostBets e (b # bs) ps =
     processLostBets e bs
       (case ps (b_playerId b) of
          None \<Rightarrow> ps
        | Some pl \<Rightarrow>
            if player_save_ok e (b_playerId b)
            then ps(b_playerId b \<mapsto>
                   pl\<lparr>totalLosses := totalLosses pl + 1, totalBets := totalBets pl + 1\<rparr>)
            else ps)"

text \<open>
  \<open>crashGame\<close>; the flag tells whether it ran to its end (\<open>False\<close>: a save was rejected and
  the promise rejects).
\<close>

definition crashGame :: "env \<Rightarrow> world \<Rightarrow> bool \<times> world" where
  "crashGame e w =
     (if \<not> isGameActive w then (True, w)
      else case currentRound w of
        None \<Rightarrow> (True, w)
      | Some r \<Rightarrow>
          let r1 = r\<lparr>status := crashed, endTime := Some (now e), maxMultiplier := crashPoint r\<rparr>;
              w1 = w\<lparr>isGameActive := False, currentRound := Some r1\<rparr>
          in
          if \<not> round_save_ok e 0 then (False, w1)
          else
            let w2 = w1\<lparr>rounds := (rounds w1)(roundId r1 \<mapsto> r1)\<rparr>;
                w3 = w2\<lparr>players :=
                       processLostBets e (filter (\<lambda>b. \<not> cashedOut b) (bets r1)) (players w2)\<rparr>;
                w4 = w3\<lparr>broadcasts := broadcasts w3 @
                       [game_crashed (roundId r1) (crashPoint r1) (seed r1) (now e)]\<rparr>;
                r2 = r1\<lparr>status := completed\<rparr>;
                w5 = w4\<lparr>currentRound := Some r2\<rparr>
            in
            if \<not> round_save_ok e 1 then (False, w5)
            else (True, w5\<lparr>rounds := (rounds w5)(roundId r2 \<mapsto> r2)\<rparr>))"

definition startMultiplier :: "env \<Rightarrow> world \<Rightarrow> world" where
  "startMultiplier e w =
     (case currentRound w of
        None \<Rightarrow> w
      | Some r \<Rightarrow>
          let r' = r\<lparr>status := active\<rparr>;
              w1 = w\<lparr>currentRound := Some r'\<rparr>;
              w2 = (if round_save_ok e 0 then w1\<lparr>rounds := (rounds w1)(roundId r' \<mapsto> r')\<rparr>
                    else w1)
          in w2\<lparr>isGameActive := True, currentMultiplier := Some 1,
                gameStartTime := Some (now e)\<rparr>)"

text \<open>
  The multiplier of \<open>updateMultiplier\<close>. \<open>Math.log\<close> is NaN below 0 and \<open>-Infinity\<close> at 0
  (the quotient is then 0); at crash point 1 the quotient is \<open>0 / 0\<close>, NaN. HOL's
  \<open>x / 0 = 0\<close> must not stand in for it.
\<close>

definition targetTime :: "real \<Rightarrow> real" where
  "targetTime cp = ln cp * 2"

definition growthFactor :: "real \<Rightarrow> real option" where
  "growthFactor cp =
     (if cp < 0 then None
      else if cp = 0 then Some 0
      else if targetTime cp = 0 then None
      else Some ((cp - 1) / targetTime cp))"

definition multiplierAt :: "real \<Rightarrow> real \<Rightarrow> real option" where
  "multiplierAt cp elapsed = map_option (\<lambda>g. 1 + elapsed * g) (growthFactor cp)"

text \<open>\<open>(Date.now() - this.gameStartTime) / 1000\<close>; \<open>null\<close> counts as 0.\<close>

definition elapsedSeconds :: "env \<Rightarrow> world \<Rightarrow> real" where
  "elapsedSeconds e w =
     real_of_int (int (now e) - (case gameStartTime w of None \<Rightarrow> 0 | Some t \<Rightarrow> int t)) / 1000"

text \<open>Comparisons with NaN are false.\<close>

definition updateMultiplier :: "env \<Rightarrow> world \<Rightarrow> world" where
  "updateMultiplier e w =
     (if \<not> isGameActive w then w
      else case currentRound w of
        None \<Rightarrow> w
      | Some r \<Rightarrow>
          let m = multiplierAt (crashPoint r) (elapsedSeconds e w);
              r1 = (case m of
                      None \<Rightarrow> r
                    | Some v \<Rightarrow> if v > maxMultiplier r then r\<lparr>maxMultiplier := v\<rparr> else r);
              w1 = w\<lparr>currentMultiplier := m, currentRound := Some r1\<rparr>
          in
          if (case m of None \<Rightarrow> False | Some v \<Rightarrow> v \<ge> crashPoint r1)
          then snd (crashGame e w1)
          else w1\<lparr>broadcasts := broadcasts w1 @
                 [multiplier_update (roundId r1) (map_option round2 m) (now e)]\<rparr>)"

text \<open>\<open>`round_${Date.now()}_${this.roundCounter}`\<close>\<close>

definition mkRoundId :: "nat \<Rightarrow> nat \<Rightarrow> string" where
  "mkRoundId t n = ''round_'' @ toString t @ ''_'' @ toString n"

text \<open>
  \<open>startNewRound\<close>. The seed is the operation's first \<open>randomBytes\<close> value, already in hex.
  A rejected save in \<open>endCurrentRound\<close> or of the new document is caught and logged; in the
  first case no round is created. \<open>generateCrashPoint\<close> never returns NaN
  (lemma \<open>generateCrashPoint_eq\<close>), so the branch for it is never taken.
\<close>

definition startNewRound :: "sha256 \<Rightarrow> real option \<Rightarrow> env \<Rightarrow> world \<Rightarrow> world" where
  "startNewRound H maxCrashEnv e w =
     (let (ended, w0) =
            (if currentRound w \<noteq> None \<and> isGameActive w then crashGame e w else (True, w))
      in
      if \<not> ended then w0
      else
        let w1 = w0\<lparr>roundCounter := roundCounter w0 + 1\<rparr>;
            sd = randomBytes e 0
        in
        (case generateCrashPoint H maxCrashEnv sd (roundCounter w1) of
           None \<Rightarrow> w1
         | Some cp \<Rightarrow>
             let h = generateHash H sd (roundCounter w1);
                 rid = mkRoundId (now e) (roundCounter w1);
                 r = \<lparr>roundId = rid, seed = sd, hash = h, crashPoint = cp,
                      startTime = now e, endTime = None, status = waiting, bets = [],
                      maxMultiplier = 1\<rparr>;
                 w2 = w1\<lparr>currentRound := Some r\<rparr>
             in
             if \<not> round_save_ok e 2 then w2
             else w2\<lparr>rounds := (rounds w2)(rid \<mapsto> r),
                     broadcasts := broadcasts w2 @ [round_started rid h (startTime r)]\<rparr>))"

section \<open>The server as a transition system\<close>

text \<open>
  The constructor's state, and the steps the timers and requests can take, in any order and
  with any environment. \<open>H\<close> and the configured cap are fixed for a run.
\<close>

definition initial :: "world \<Rightarrow> bool" where
  "initial w \<longleftrightarrow>
     currentRound w = None \<and> roundCounter w = 0 \<and> currentMultiplier w = Some 1 \<and>
     gameStartTime w = None \<and> \<not> isGameActive w \<and> broadcasts w = []"

inductive step :: "sha256 \<Rightarrow> real option \<Rightarrow> world \<Rightarrow> world \<Rightarrow> bool"
  for H :: sha256 and mc :: "real option" where
  step_startNewRound: "step H mc w (startNewRound H mc e w)"
| step_startMultiplier: "step H mc w (startMultiplier e w)"
| step_updateMultiplier: "step H mc w (updateMultiplier e w)"
| step_crashGame: "step H mc w (snd (crashGame e w))"
| step_placeBet: "step H mc w (snd (placeBet e w pid usdAmount c))"
| step_cashOut: "step H mc w (snd (cashOut e w pid))"
| step_transferCrypto: "step H mc w (snd (transferCrypto e w src dst amount a))"

inductive reachable :: "sha256 \<Rightarrow> real option \<Rightarrow> world \<Rightarrow> bool"
  for H :: sha256 and mc :: "real option" where
  reachable_initial: "initial w \<Longrightarrow> reachable H mc w"
| reachable_step: "reachable H mc w \<Longrightarrow> step H mc w w' \<Longrightarrow> reachable H mc w'"

text \<open>What a round commits to at its creation.\<close>

definition commitment :: "gameRound \<Rightarrow> string \<times> string \<times> string \<times> real" where
  "commitment r = (roundId r, seed r, hash r, crashPoint r)"

definition committed :: "sha256 \<Rightarrow> real option \<Rightarrow> nat \<Rightarrow> gameRound \<Rightarrow> bool" where
  "committed H mc n r \<longleftrightarrow>
     hash r = generateHash H (seed r) n \<and>
     generateCrashPoint H mc (seed r) n = Some (crashPoint r)"

section \<open>controllers: the price request\<close>

text \<open>
  \<open>getPrice\<close> of the HTTP facade: the tag is checked against the two supported assets, then
  a \<open>CryptoService\<close> created for the request (empty cache) is asked. The error is the
  status of the reply.
\<close>

definition getPrice :: "price_env \<Rightarrow> string \<Rightarrow> nat + returned_value" where
  "getPrice e cryptocurrency =
     (if cryptocurrency \<notin> set [''bitcoin'', ''ethereum''] then Inl 400
      else case fst (getCurrentPrice e Map.empty cryptocurrency) of
             Inl err \<Rightarrow> Inl 500
           | Inr price \<Rightarrow> Inr price)"

section \<open>Balance changes and example states\<close>



text \<open>
  A seed of the shape the server generates (64 hexadecimal digits) and a hash function that
  maps the string hashed for that seed in round 1 to its SHA-256 digest
  \<open>fd84ded0a32cef0e909a4f0beb343cd3e67b004eb9958ccc3454e68dc1bd1f1a\<close> and every other
  string to the zero digest.
\<close>

definition sample_seed :: string where
  "sample_seed = ''7ec1ae9d5c685d113b7860ab138ca45eca8c46bf7bde4dc8b405242ad815ec81''"

definition sample_sha256 :: sha256 where
  "sample_sha256 x =
     (if x = sample_seed @ ''1''
      then 114669912316659425504172902067633954942501764752815125361223141848913366818586
      else 0)"

text \<open>
  States and environments on which the theorems below are run: a player with the given
  balance in both assets; a round in its betting window; a stake of 100 at price 50000;
  an environment whose upstream is down, so that prices are the fallback ones, and whose
  player writes succeed as the argument says.
\<close>

definition demo_player :: "string \<Rightarrow> real \<Rightarrow> player" where
  "demo_player pid b =
     \<lparr>playerId = pid, username = pid, wallet = (\<lambda>c. b), totalBets = 0, totalWins = 0,
      totalLosses = 0, isActive = True\<rparr>"

definition demo_round :: gameRound where
  "demo_round =
     \<lparr>roundId = ''round_1000_1'', seed = ''5eed'', hash = ''c0ffee'', crashPoint = 3,
      startTime = 1000, endTime = None, status = waiting, bets = [], maxMultiplier = 1\<rparr>"

definition demo_bet :: bet where
  "demo_bet =
     \<lparr>b_playerId = ''alice'', b_usdAmount = 100, b_cryptoAmount = 2 / 1000,
      b_cryptocurrency = Bitcoin, b_priceAtTime = 50000, cashedOut = False,
      cashoutMultiplier = None, cashoutAmount = None, b_timestamp = 1500\<rparr>"

definition demo_world :: world where
  "demo_world =
     \<lparr>players = [''alice'' \<mapsto> demo_player ''alice'' 1, ''bob'' \<mapsto> demo_player ''bob'' 0],
      transactions = [], rounds = Map.empty, priceCache = Map.empty,
      currentRound = Some demo_round, roundCounter = 1, currentMultiplier = Some 1,
      gameStartTime = None, isGameActive = False, broadcasts = []\<rparr>"

definition betting_world :: world where
  "betting_world = demo_world\<lparr>currentRound := Some (demo_round\<lparr>bets := [demo_bet]\<rparr>)\<rparr>"

definition live_world :: world where
  "live_world =
     \<lparr>players = [''alice'' \<mapsto> demo_player ''alice'' (998 / 1000)],
      transactions = [], rounds = Map.empty, priceCache = Map.empty,
      currentRound = Some (demo_round\<lparr>status := active, bets := [demo_bet]\<rparr>),
      roundCounter = 1, currentMultiplier = Some 2,
      gameStartTime = Some 1900, isGameActive = True, broadcasts = []\<rparr>"

definition demo_env :: "(string \<Rightarrow> bool) \<Rightarrow> env" where
  "demo_env ok =
     \<lparr>now = 2000,
      randomBytes = (\<lambda>k. if k = 0 then ''a0'' else if k = 1 then ''a1'' else ''a2''),
      player_save_ok = ok, transaction_save_ok = (\<lambda>t. True), round_save_ok = (\<lambda>k. True),
      prices = \<lparr>cacheDuration = 10000, now_check = 2000, now_store = 2000, reply = None\<rparr>\<rparr>"

section \<open>Steps that keep the current round and steps that open one\<close>

text \<open>
  How a step may relate two states. \<open>keeps\<close>: the round counter and the commitment of the
  current round are unchanged, and the messages added announce no round and reveal at most
  the seed and crash point of the current round. \<open>opens\<close>: the counter advances by one and
  the current round is a new one, committed to under the new number, announced or not.
  \<open>engine_inv\<close> is the invariant of the reachable states.
\<close>

definition allowed_after :: "world \<Rightarrow> message \<Rightarrow> bool" where
  "allowed_after w m =
     (case m of
        round_started rid h t \<Rightarrow> False
      | game_crashed rid cp sd t \<Rightarrow>
          (case currentRound w of
             None \<Rightarrow> False
           | Some r \<Rightarrow> rid = roundId r \<and> cp = crashPoint r \<and> sd = seed r)
      | _ \<Rightarrow> True)"

definition keeps :: "world \<Rightarrow> world \<Rightarrow> bool" where
  "keeps w w' \<longleftrightarrow>
     roundCounter w' = roundCounter w \<and>
     map_option commitment (currentRound w') = map_option commitment (currentRound w) \<and>
     (\<exists>ms. broadcasts w' = broadcasts w @ ms \<and> (\<forall>m \<in> set ms. allowed_after w m))"

definition engine_inv :: "sha256 \<Rightarrow> real option \<Rightarrow> world \<Rightarrow> bool" where
  "engine_inv H mc w \<longleftrightarrow>
     (\<forall>r. currentRound w = Some r \<longrightarrow>
        committed H mc (roundCounter w) r \<and> (\<exists>t. roundId r = mkRoundId t (roundCounter w))) \<and>
     (\<forall>rid h t. round_started rid h t \<in> set (broadcasts w) \<longrightarrow>
        (\<exists>n t0. n \<le> roundCounter w \<and> rid = mkRoundId t0 n) \<and>
        (\<forall>r. currentRound w = Some r \<and> roundId r = rid \<longrightarrow> h = hash r)) \<and>
     (\<forall>rid cp sd t. game_crashed rid cp sd t \<in> set (broadcasts w) \<longrightarrow>
        (\<exists>n t0. n \<le> roundCounter w \<and> rid = mkRoundId t0 n \<and>
           generateCrashPoint H mc sd n = Some cp \<and>
           (\<forall>h t'. round_started rid h t' \<in> set (broadcasts w) \<longrightarrow> h = generateHash H sd n)))"

definition opens :: "sha256 \<Rightarrow> real option \<Rightarrow> world \<Rightarrow> world \<Rightarrow> bool" where
  "opens H mc w w' \<longleftrightarrow>
     roundCounter w' = roundCounter w + 1 \<and>
     (\<exists>r t. currentRound w' = Some r \<and> committed H mc (roundCounter w') r \<and>
        roundId r = mkRoundId t (roundCounter w') \<and>
        (broadcasts w' = broadcasts w \<or>
         broadcasts w' = broadcasts w @ [round_started (roundId r) (hash r) t]))"

text \<open>
  A run from the state of a server just started: round 1 is opened, its multiplier is
  started and the round is crashed.
\<close>

definition fresh_world :: world where
  "fresh_world =
     \<lparr>players = Map.empty, transactions = [], rounds = Map.empty, priceCache = Map.empty,
      currentRound = None, roundCounter = 0, currentMultiplier = Some 1,
      gameStartTime = None, isGameActive = False, broadcasts = []\<rparr>"

definition played_world :: "sha256 \<Rightarrow> world" where
  "played_world H =
     snd (crashGame (demo_env (\<lambda>p. True))
       (startMultiplier (demo_env (\<lambda>p. True))
          (startNewRound H None (demo_env (\<lambda>p. True)) fresh_world)))"

section \<open>Digest prefix\<close>

lemma hex_val_hex_char: "d < 16 \<Longrightarrow> hex_val (hex_char d) = Some d"
  by (auto simp: hex_val_def hex_char_def Let_def)

lemma parse_digits_snoc:
  "\<forall>d \<in> set ds. d < 16 \<Longrightarrow> e < 16 \<Longrightarrow>
   parse_digits acc (map hex_char (ds @ [e])) = 16 * parse_digits acc (map hex_char ds) + e"
  by (induction ds arbitrary: acc) (simp_all add: hex_val_hex_char)

lemma parse_digits_prefix:
  "j \<le> 64 \<Longrightarrow>
   parse_digits 0 (map hex_char (map (\<lambda>i. N div 16 ^ (63 - i) mod 16) [0..<j]))
     = N div 16 ^ (64 - j) mod 16 ^ j"
proof (induction j)
  case 0
  then show ?case by simp
next
  case (Suc j)
  let ?g = "\<lambda>i. N div 16 ^ (63 - i) mod 16"
  let ?M = "N div 16 ^ (63 - j)"
  have small: "\<forall>d \<in> set (map ?g [0..<j]). d < 16" by simp
  have "64 - j = Suc (63 - j)" using Suc.prems by simp
  then have pw: "(16::nat) ^ (64 - j) = 16 ^ (63 - j) * 16" by simp
  have "parse_digits 0 (map hex_char (map ?g [0..<Suc j]))
          = 16 * parse_digits 0 (map hex_char (map ?g [0..<j])) + ?g j"
    using parse_digits_snoc [OF small, of "?g j" 0] by simp
  also have "\<dots> = 16 * (N div 16 ^ (64 - j) mod 16 ^ j) + ?M mod 16"
    using Suc by simp
  also have "N div 16 ^ (64 - j) = ?M div 16"
    by (simp add: pw div_mult2_eq)
  also have "16 * (?M div 16 mod 16 ^ j) + ?M mod 16 = ?M mod 16 ^ Suc j"
    by (simp add: mod_mult2_eq)
  finally show ?case by simp
qed

lemma take8_digest_hex:
  "take 8 (digest_hex w) = map hex_char (map (\<lambda>i. unat w div 16 ^ (63 - i) mod 16) [0..<8])"
  by (simp add: digest_hex_def take_map)

lemma first32_div: "first32 w = unat w div 16 ^ 56"
proof -
  have "first32 w = drop_bit 224 (unat w)"
    by (simp only: first32_def unat_drop_bit_eq)
  also have "\<dots> = unat w div 2 ^ 224"
    by (simp only: drop_bit_eq_div)
  also have "(2::nat) ^ 224 = 16 ^ 56" by simp
  finally show ?thesis .
qed

lemma first32_bound: "first32 w < 2 ^ 32"
proof -
  have "unat w < 2 ^ 256" using unsigned_less [of w] by simp
  also have "(2::nat) ^ 256 = 2 ^ 32 * 16 ^ 56" by simp
  finally show ?thesis
    by (simp only: first32_div less_mult_imp_div_less)
qed

lemma parseInt16_digest: "parseInt16 (take 8 (digest_hex w)) = Some (first32 w)"
proof -
  let ?g = "\<lambda>i. unat w div 16 ^ (63 - i) mod 16"
  have up: "[0..<8] = 0 # [1..<8]" by (simp add: upt_rec)
  have "parse_digits 0 (take 8 (digest_hex w)) = unat w div 16 ^ 56 mod 16 ^ 8"
    using parse_digits_prefix [of 8 "unat w"] by (simp add: take8_digest_hex)
  also have "\<dots> = first32 w"
    using first32_bound [of w] by (simp add: first32_div)
  finally have val: "parse_digits 0 (take 8 (digest_hex w)) = first32 w" .
  have "take 8 (digest_hex w) = hex_char (?g 0) # map hex_char (map ?g [1..<8])"
    by (simp only: take8_digest_hex up list.map)
  then have "parseInt16 (take 8 (digest_hex w)) = Some (parse_digits 0 (take 8 (digest_hex w)))"
    by (simp add: parseInt16_def hex_val_hex_char)
  with val show ?thesis by simp
qed

lemma generateCrashPoint_eq:
  "generateCrashPoint H env s n =
     Some (round2 (clampedCrash (maxCrash_of env)
       (real (first32 (H (s @ toString n))) / 4294967295)))"
  by (simp add: generateCrashPoint_def parseInt16_digest Let_def)

section \<open>The crash-point derivation\<close>

lemma denom_lower:
  assumes "U < 2 ^ 32"
  shows "1 / 100 \<le> 1 - real U / 4294967295 * 0.99"
proof -
  have "real U \<le> 4294967295" using assms by simp
  then have "real U / 4294967295 \<le> 1" by simp
  then show ?thesis by simp
qed

lemma raw_le_100:
  assumes "U < 2 ^ 32"
  shows "1 / (1 - real U / 4294967295 * 0.99) \<le> 100"
proof -
  have "1 / (1 - real U / 4294967295 * 0.99) \<le> 1 / (1 / 100)"
    using denom_lower [OF assms] by (intro divide_left_mono) auto
  then show ?thesis by simp
qed

lemma round2_le_100: "x \<le> 100 \<Longrightarrow> round2 x \<le> 100"
proof -
  assume "x \<le> 100"
  then have "round (x * 100) \<le> round (10000 :: real)" by (intro round_mono) simp
  then have "real_of_int (round (x * 100)) \<le> 10000" by simp
  then show ?thesis by (simp add: round2_def)
qed

lemma round2_ge_1: "1 \<le> x \<Longrightarrow> 1 \<le> round2 x"
proof -
  assume "1 \<le> x"
  then have "round (100 :: real) \<le> round (x * 100)" by (intro round_mono) simp
  then have "100 \<le> real_of_int (round (x * 100))" by simp
  then show ?thesis by (simp add: round2_def)
qed

lemma clampedCrash_eq:
  assumes "U < 2 ^ 32"
  shows "clampedCrash mc (real U / 4294967295)
           = max 1 (min mc (1 / (1 - 0.99 * (real U / (2 ^ 32 - 1)))))"
proof -
  have "1 - real U / 4294967295 * 0.99 \<noteq> 0" using denom_lower [OF assms] by linarith
  then show ?thesis by (simp add: clampedCrash_def mult.commute)
qed

lemma toString_1: "toString 1 = ''1''"
  by code_simp

lemma first32_sample: "first32 (sample_sha256 (sample_seed @ toString (Suc 0))) = 4253343440"
proof -
  have "first32 (sample_sha256 (sample_seed @ ''1'')) = 4253343440"
    by (simp add: sample_sha256_def first32_div)
  then show ?thesis using toString_1 by simp
qed

lemma first32_zero: "first32 (0 :: 256 word) = 0"
  by (simp add: first32_div)

text \<open>
  C1, as the specification states it (\<open>r = U / 2^32\<close>), fails: for the sample seed in
  round 1 the digest starts with \<open>0xfd84ded0\<close>; the code returns 51.04, the specification's
  formula gives 51.03, under the default cap of 120.
\<close>

theorem crash_point_spec_counterexample:
  "generateCrashPoint sample_sha256 None sample_seed 1 = Some (5104 / 100) \<and>
   spec_crash_point sample_sha256 (maxCrash_of None) sample_seed 1 = 5103 / 100"
  by (simp add: generateCrashPoint_eq spec_crash_point_def first32_sample clampedCrash_def
      maxCrash_of_def round2_def round_def)

text \<open>
  C1, amended: for every hash function, seed and round number, \<open>generateCrashPoint\<close> returns
  the value obtained from the first 32 bits \<open>U\<close> of the digest of seed followed by the decimal
  round number as \<open>r = U / (2^32 - 1)\<close>, \<open>raw = 1 / (1 - 0.99 r)\<close>, clamped to
  \<open>[1, MAX_CRASH]\<close> (120 unless configured) and rounded to two decimal places.
\<close>

theorem crash_point_derivation:
  "generateCrashPoint H env s n =
     Some (crash_point_of (maxCrash_of env) (first32 (H (s @ toString n))))"
  by (simp only: generateCrashPoint_eq crash_point_of_def Let_def
      clampedCrash_eq [OF first32_bound])

text \<open>
  C9: the derived crash point exists, lies between 1 and 100 whatever the configured cap, and
  under the default cap of 120 the upper clamp leaves the raw value unchanged.
\<close>

theorem crash_point_at_most_100:
  "\<exists>c. generateCrashPoint H env s n = Some c \<and> c \<le> 100 \<and>
       (let random = real (first32 (H (s @ toString n))) / 4294967295;
            raw = 1 / (1 - random * 0.99)
        in raw \<le> 100 \<and> min (maxCrash_of None) raw = raw \<and>
           generateCrashPoint H None s n = Some (round2 (max 1 raw)))"
proof -
  let ?U = "first32 (H (s @ toString n))"
  let ?raw = "1 / (1 - real ?U / 4294967295 * 0.99)"
  have U: "?U < 2 ^ 32" by (rule first32_bound)
  have raw: "?raw \<le> 100" by (rule raw_le_100 [OF U])
  have nz: "1 - real ?U / 4294967295 * 0.99 \<noteq> 0" using denom_lower [OF U] by linarith
  have "clampedCrash (maxCrash_of env) (real ?U / 4294967295) \<le> 100"
    using raw nz by (simp add: clampedCrash_def min_le_iff_disj)
  then have c: "round2 (clampedCrash (maxCrash_of env) (real ?U / 4294967295)) \<le> 100"
    by (rule round2_le_100)
  have m: "min (maxCrash_of None) ?raw = ?raw"
    using raw by (simp add: maxCrash_of_def)
  have d: "generateCrashPoint H None s n = Some (round2 (max 1 ?raw))"
    using nz m by (simp add: generateCrashPoint_eq clampedCrash_def)
  show ?thesis
    using c raw m d by (simp add: generateCrashPoint_eq Let_def)
qed

section \<open>The rounding of doubles\<close>

text \<open>
  \<open>exponent\<close> is the binade of its argument, and \<open>double x\<close> is a multiple of \<open>ulp x\<close>
  at most half of it away from \<open>x\<close>.
\<close>

lemma bit_length_bounds: "0 < n \<Longrightarrow> 2 ^ (bit_length n - 1) \<le> n \<and> n < 2 ^ bit_length n"
proof (induction n rule: bit_length.induct)
  case (1 n)
  show ?case
  proof (cases "n div 2 = 0")
    case True
    with 1 have "n = 1" by (simp add: div_eq_0_iff) 
    then show ?thesis by (simp add: bit_length.simps)
  next
    case False
    then have p: "0 < n div 2" by simp
    from 1 have nz: "n \<noteq> 0" by simp
    from "1.IH" [OF nz p] have a: "2 ^ (bit_length (n div 2) - 1) \<le> n div 2"
      and b: "n div 2 < 2 ^ bit_length (n div 2)" by simp_all
    have bl: "bit_length n = Suc (bit_length (n div 2))" using nz by (simp add: bit_length.simps)
    have pos: "0 < bit_length (n div 2)" using p by (simp add: bit_length.simps)
    then obtain k where k: "bit_length (n div 2) = Suc k" by (cases "bit_length (n div 2)") auto
    from a k have "2 * 2 ^ k \<le> 2 * (n div 2)" by simp
    also have "\<dots> \<le> n" by simp
    finally have lo: "2 ^ (bit_length n - 1) \<le> n" using bl k by simp
    from b have "n div 2 + 1 \<le> 2 ^ bit_length (n div 2)" by simp
    then have "2 * (n div 2) + 2 \<le> 2 * 2 ^ bit_length (n div 2)" by simp
    moreover have "n \<le> 2 * (n div 2) + 1" by presburger
    ultimately have hi: "n < 2 ^ bit_length n" using bl by simp
    from lo hi show ?thesis ..
  qed
qed

lemma exponent_bounds:
  assumes "x \<noteq> 0"
  shows "2 powr real_of_int (exponent x) \<le> \<bar>x\<bar> \<and> \<bar>x\<bar> < 2 powr real_of_int (exponent x + 1)"
proof (cases "1 \<le> \<bar>x\<bar>")
  case True
  let ?n = "nat \<lfloor>\<bar>x\<bar>\<rfloor>"
  have n: "0 < ?n" using True by simp
  have e: "exponent x = int (bit_length ?n) - 1" using True by (simp add: exponent_def)
  from bit_length_bounds [OF n] have lo: "2 ^ (bit_length ?n - 1) \<le> ?n" and hi: "?n < 2 ^ bit_length ?n"
    by simp_all
  have bp: "0 < bit_length ?n" using n by (simp add: bit_length.simps)
  have "real (2 ^ (bit_length ?n - 1)) \<le> real ?n" using lo by (simp only: of_nat_le_iff)
  also have "real ?n \<le> \<bar>x\<bar>" using True by simp
  finally have "2 ^ (bit_length ?n - 1) \<le> \<bar>x\<bar>" by simp
  moreover have "real_of_int (exponent x) = real (bit_length ?n - 1)"
    using e bp by (simp add: of_nat_diff)
  ultimately have 1: "2 powr real_of_int (exponent x) \<le> \<bar>x\<bar>"
    by (simp add: powr_realpow)
  have "Suc ?n \<le> 2 ^ bit_length ?n" using hi by (rule Suc_leI)
  then have "real (Suc ?n) \<le> real (2 ^ bit_length ?n)" by (simp only: of_nat_le_iff)
  moreover have "\<bar>x\<bar> < real (Suc ?n)" using True by simp linarith
  ultimately have "\<bar>x\<bar> < 2 ^ bit_length ?n" by simp
  moreover have "real_of_int (exponent x + 1) = real (bit_length ?n)"
    using e by simp
  ultimately have 2: "\<bar>x\<bar> < 2 powr real_of_int (exponent x + 1)"
    by (simp add: powr_realpow)
  from 1 2 show ?thesis ..
next
  case False
  then have a: "\<bar>x\<bar> < 1" by simp
  have ap: "0 < \<bar>x\<bar>" using assms by simp
  let ?m = "nat (\<lceil>1 / \<bar>x\<bar>\<rceil> - 1)"
  have inv: "1 < 1 / \<bar>x\<bar>" using a ap by simp
  then have c2: "2 \<le> \<lceil>1 / \<bar>x\<bar>\<rceil>" by linarith
  then have m: "0 < ?m" by simp
  have e: "exponent x = - int (bit_length ?m)" using False by (simp add: exponent_def)
  from bit_length_bounds [OF m] have lo: "2 ^ (bit_length ?m - 1) \<le> ?m" and hi: "?m < 2 ^ bit_length ?m"
    by simp_all
  have bp: "0 < bit_length ?m" using m by (simp add: bit_length.simps)
  have ml: "real ?m < 1 / \<bar>x\<bar>" using c2 by simp linarith
  have mu: "1 / \<bar>x\<bar> \<le> real (Suc ?m)" using c2 by simp linarith
  have "Suc ?m \<le> 2 ^ bit_length ?m" using hi by (rule Suc_leI)
  then have "real (Suc ?m) \<le> real (2 ^ bit_length ?m)" by (simp only: of_nat_le_iff)
  with mu have "1 / \<bar>x\<bar> \<le> 2 ^ bit_length ?m" by simp
  then have "1 \<le> 2 ^ bit_length ?m * \<bar>x\<bar>" using ap by (simp add: field_simps)
  then have "1 / 2 ^ bit_length ?m \<le> \<bar>x\<bar>" by (simp add: field_simps)
  moreover have "real_of_int (exponent x) = - real (bit_length ?m)"
    using e by simp
  then have "2 powr real_of_int (exponent x) = 1 / 2 ^ bit_length ?m"
    by (simp add: powr_minus powr_realpow field_simps)
  ultimately have 1: "2 powr real_of_int (exponent x) \<le> \<bar>x\<bar>" by simp
  have "real (2 ^ (bit_length ?m - 1)) \<le> real ?m" using lo by (simp only: of_nat_le_iff)
  also note ml
  finally have "2 ^ (bit_length ?m - 1) < 1 / \<bar>x\<bar>"
    by (simp only: of_nat_power of_nat_numeral)
  then have "\<bar>x\<bar> * 2 ^ (bit_length ?m - 1) < 1" using ap by (simp add: field_simps)
  then have lt: "\<bar>x\<bar> < 1 / 2 ^ (bit_length ?m - 1)" by (simp add: field_simps)
  have "real_of_int (exponent x + 1) = - real (bit_length ?m - 1)"
    using e bp by (simp add: of_nat_diff)
  then have "2 powr real_of_int (exponent x + 1) = 1 / 2 ^ (bit_length ?m - 1)"
    by (simp add: powr_minus powr_realpow field_simps)
  with lt have 2: "\<bar>x\<bar> < 2 powr real_of_int (exponent x + 1)" by simp
  from 1 2 show ?thesis ..
qed

lemma rne_nearest: "\<bar>real_of_int (rne y) - y\<bar> \<le> 1 / 2"
  unfolding rne_def Let_def by (auto; linarith)

lemma ulp_pos: "0 < ulp x"
  by (simp add: ulp_def Let_def)

lemma double_nearest: "\<bar>double x - x\<bar> \<le> ulp x / 2"
proof (cases "x = 0")
  case True
  then show ?thesis using ulp_pos [of x] by (simp add: double_def)
next
  case False
  have "double x - x = (real_of_int (rne (x / ulp x)) - x / ulp x) * ulp x"
    using False ulp_pos [of x] by (simp add: double_def algebra_simps)
  then have "\<bar>double x - x\<bar> = \<bar>real_of_int (rne (x / ulp x)) - x / ulp x\<bar> * ulp x"
    using ulp_pos [of x] by (simp add: abs_mult)
  also have "\<dots> \<le> 1 / 2 * ulp x"
    using rne_nearest [of "x / ulp x"] ulp_pos [of x] by (intro mult_right_mono) simp_all
  finally show ?thesis by simp
qed

lemma double_zero: "double 0 = 0"
  by (simp add: double_def)

section \<open>The verifier\<close>



lemma double_cent: "double (1 / 100) = 5764607523034235 / 2 ^ 59"
  by (simp add: double_def ulp_def exponent_def rne_def bit_length.simps)


text \<open>The crash point that \<open>generateCrashPoint\<close> returned is accepted.\<close>

lemma verifyCrashPoint_own:
  "generateCrashPoint H env s n = Some c \<Longrightarrow> verifyCrashPoint H env s n (double c)"
  by (simp add: verifyCrashPoint_def double_zero double_cent)


section \<open>The price cache\<close>

lemma getCurrentPrice_returns: "\<exists>v. fst (getCurrentPrice e cache a) = Inr v"
  by (simp add: getCurrentPrice_def split: option.split sum.split)

lemma fresh_price_nonzero:
  "fst (getCurrentPrice e Map.empty a) = Inr (Price p) \<Longrightarrow> p \<noteq> 0"
  by (auto simp: getCurrentPrice_def fresh_entry_def fetch_quote_def fallbackPrices_def
      split: option.splits sum.splits if_splits)

text \<open>For the two assets the returned value is a Number; for an inherited key it need not be.\<close>

lemma asset_price_is_number:
  "\<exists>p. fst (getCurrentPrice e cache (crypto_name c)) = Inr (Price p)"
  by (cases c)
     (simp_all add: getCurrentPrice_def fallbackPrices_def split: option.split sum.split)

lemma inherited_key_returned:
  "getCurrentPrice \<lparr>cacheDuration = 10000, now_check = 0, now_store = 0, reply = None\<rparr>
     Map.empty ''toString'' = (Inr (Inherited ''toString''), Map.empty, 1)"
  by (simp add: getCurrentPrice_def fresh_entry_def fetch_quote_def fallbackPrices_def
      object_prototype_members_def)

text \<open>
  C4, as stated, fails in its last part: \<open>getCurrentPrice\<close> does not fail for an unsupported
  tag. With the upstream down and nothing cached it returns 1 for \<open>dogecoin\<close>.
\<close>

theorem price_unsupported_counterexample:
  "''dogecoin'' \<notin> set getSupportedCryptocurrencies \<and>
   getCurrentPrice \<lparr>cacheDuration = 10000, now_check = 0, now_store = 0, reply = None\<rparr>
     Map.empty ''dogecoin'' = (Inr (Price 1), Map.empty, 1)"
  by (simp add: getSupportedCryptocurrencies_def getCurrentPrice_def fresh_entry_def
      fetch_quote_def fallbackPrices_def object_prototype_members_def)

text \<open>
  C4, amended: a cache entry younger than the TTL is returned with no upstream request;
  otherwise one request is made and a quote with a non-zero price is cached and returned;
  when the request fails or has no such quote, the cached price is returned whatever its
  age, and with no entry the hard-coded fallback of the asset (67000 for bitcoin, 3500 for
  ethereum). \<open>getCurrentPrice\<close> never fails, whatever the tag; it is the facade's \<open>getPrice\<close>
  that fails, and exactly for the unsupported tags.
\<close>

theorem price_lookup:
  "(\<forall>c. cache (cacheKey a) = Some c \<and> int (now_check e) - int (ce_timestamp c) < cacheDuration e
        \<longrightarrow> getCurrentPrice e cache a = (Inr (Price (ce_price c)), cache, 0)) \<and>
   (\<forall>data q.
        (\<forall>c. cache (cacheKey a) = Some c
              \<longrightarrow> cacheDuration e \<le> int (now_check e) - int (ce_timestamp c)) \<and>
        reply e = Some data \<and> data a = Some q \<and> usd q \<noteq> 0
        \<longrightarrow> getCurrentPrice e cache a =
              (Inr (Price (usd q)),
               cache(cacheKey a \<mapsto> \<lparr>ce_price = usd q, ce_timestamp = now_store e,
                                   ce_lastUpdated = last_updated_at q * 1000\<rparr>), 1)) \<and>
   (\<forall>c. cache (cacheKey a) = Some c \<and>
        cacheDuration e \<le> int (now_check e) - int (ce_timestamp c) \<and>
        (reply e = None \<or>
         (\<exists>data. reply e = Some data \<and>
            (data a = None \<or> (\<exists>q. data a = Some q \<and> usd q = 0))))
        \<longrightarrow> getCurrentPrice e cache a = (Inr (Price (ce_price c)), cache, 1)) \<and>
   (cache (cacheKey a) = None \<and>
        (reply e = None \<or>
         (\<exists>data. reply e = Some data \<and>
            (data a = None \<or> (\<exists>q. data a = Some q \<and> usd q = 0)))) \<and>
        a \<in> set getSupportedCryptocurrencies
        \<longrightarrow> getCurrentPrice e cache a =
              (Inr (Price (if a = ''bitcoin'' then 67000 else 3500)), cache, 1)) \<and>
   (\<exists>v. fst (getCurrentPrice e cache a) = Inr v) \<and>
   (isl (getPrice e a) \<longleftrightarrow> a \<notin> set getSupportedCryptocurrencies)"
proof -
  obtain v where "fst (getCurrentPrice e Map.empty a) = Inr v"
    using getCurrentPrice_returns by blast
  then have facade: "isl (getPrice e a) \<longleftrightarrow> a \<notin> set getSupportedCryptocurrencies"
    by (simp add: getPrice_def getSupportedCryptocurrencies_def)
  have hit: "getCurrentPrice e cache a = (Inr (Price (ce_price c)), cache, 0)"
    if "cache (cacheKey a) = Some c" "int (now_check e) - int (ce_timestamp c) < cacheDuration e"
    for c
    using that by (simp add: getCurrentPrice_def fresh_entry_def)
  have refresh: "getCurrentPrice e cache a =
              (Inr (Price (usd q)),
               cache(cacheKey a \<mapsto> \<lparr>ce_price = usd q, ce_timestamp = now_store e,
                                   ce_lastUpdated = last_updated_at q * 1000\<rparr>), 1)"
    if "\<forall>c. cache (cacheKey a) = Some c
              \<longrightarrow> cacheDuration e \<le> int (now_check e) - int (ce_timestamp c)"
      "reply e = Some data" "data a = Some q" "usd q \<noteq> 0"
    for data q
    using that
    by (auto simp: getCurrentPrice_def fresh_entry_def fetch_quote_def split: option.splits)
  have stale: "getCurrentPrice e cache a = (Inr (Price (ce_price c)), cache, 1)"
    if "cache (cacheKey a) = Some c"
      "cacheDuration e \<le> int (now_check e) - int (ce_timestamp c)"
      "reply e = None \<or>
         (\<exists>data. reply e = Some data \<and>
            (data a = None \<or> (\<exists>q. data a = Some q \<and> usd q = 0)))"
    for c
    using that
    by (auto simp: getCurrentPrice_def fresh_entry_def fetch_quote_def split: option.splits)
  have fallback: "getCurrentPrice e cache a =
              (Inr (Price (if a = ''bitcoin'' then 67000 else 3500)), cache, 1)"
    if "cache (cacheKey a) = None"
      "reply e = None \<or>
         (\<exists>data. reply e = Some data \<and>
            (data a = None \<or> (\<exists>q. data a = Some q \<and> usd q = 0)))"
      "a \<in> set getSupportedCryptocurrencies"
    using that
    by (auto simp: getCurrentPrice_def fresh_entry_def fetch_quote_def fallbackPrices_def
        getSupportedCryptocurrencies_def split: option.splits)
  from facade hit refresh stale fallback getCurrentPrice_returns [of e cache a]
  show ?thesis by blast
qed

theorem price_lookup_witness:
  "getCurrentPrice \<lparr>cacheDuration = 10000, now_check = 5000, now_store = 5001, reply = None\<rparr>
     [''price_bitcoin'' \<mapsto> \<lparr>ce_price = 50000, ce_timestamp = 0, ce_lastUpdated = 0\<rparr>]
     ''bitcoin''
   = (Inr (Price 50000),
      [''price_bitcoin'' \<mapsto> \<lparr>ce_price = 50000, ce_timestamp = 0, ce_lastUpdated = 0\<rparr>], 0) \<and>
   getCurrentPrice
     \<lparr>cacheDuration = 10000, now_check = 20000, now_store = 20001,
      reply = Some [''bitcoin'' \<mapsto> \<lparr>usd = 60000, last_updated_at = 20\<rparr>]\<rparr>
     [''price_bitcoin'' \<mapsto> \<lparr>ce_price = 50000, ce_timestamp = 0, ce_lastUpdated = 0\<rparr>]
     ''bitcoin''
   = (Inr (Price 60000),
      [''price_bitcoin'' \<mapsto> \<lparr>ce_price = 60000, ce_timestamp = 20001, ce_lastUpdated = 20000\<rparr>],
      1) \<and>
   getCurrentPrice \<lparr>cacheDuration = 10000, now_check = 20000, now_store = 20001, reply = None\<rparr>
     [''price_bitcoin'' \<mapsto> \<lparr>ce_price = 50000, ce_timestamp = 0, ce_lastUpdated = 0\<rparr>]
     ''bitcoin''
   = (Inr (Price 50000),
      [''price_bitcoin'' \<mapsto> \<lparr>ce_price = 50000, ce_timestamp = 0, ce_lastUpdated = 0\<rparr>], 1) \<and>
   getCurrentPrice \<lparr>cacheDuration = 10000, now_check = 20000, now_store = 20001, reply = None\<rparr>
     Map.empty ''ethereum''
   = (Inr (Price 3500), Map.empty, 1) \<and>
   isl (getPrice \<lparr>cacheDuration = 10000, now_check = 20000, now_store = 20001, reply = None\<rparr>
          ''dogecoin'') \<and>
   \<not> isl (getPrice \<lparr>cacheDuration = 10000, now_check = 20000, now_store = 20001, reply = None\<rparr>
          ''bitcoin'')"
proof -
  let ?c1 = "[''price_bitcoin'' \<mapsto> \<lparr>ce_price = 50000, ce_timestamp = 0, ce_lastUpdated = 0\<rparr>]"
  let ?e1 = "\<lparr>cacheDuration = 10000, now_check = 5000, now_store = 5001, reply = None\<rparr>"
  let ?e2 = "\<lparr>cacheDuration = 10000, now_check = 20000, now_store = 20001,
      reply = Some [''bitcoin'' \<mapsto> \<lparr>usd = 60000, last_updated_at = 20\<rparr>]\<rparr>"
  let ?e3 = "\<lparr>cacheDuration = 10000, now_check = 20000, now_store = 20001, reply = None\<rparr>"
  have a: "getCurrentPrice ?e1 ?c1 ''bitcoin'' = (Inr (Price 50000), ?c1, 0)"
    using price_lookup [of ?c1 "''bitcoin''" ?e1] by (simp add: cacheKey_def)
  have b: "getCurrentPrice ?e2 ?c1 ''bitcoin''
     = (Inr (Price 60000),
        [''price_bitcoin'' \<mapsto> \<lparr>ce_price = 60000, ce_timestamp = 20001, ce_lastUpdated = 20000\<rparr>],
        1)"
    using price_lookup [of ?c1 "''bitcoin''" ?e2] by (simp add: cacheKey_def)
  have c: "getCurrentPrice ?e3 ?c1 ''bitcoin'' = (Inr (Price 50000), ?c1, 1)"
    using price_lookup [of ?c1 "''bitcoin''" ?e3] by (simp add: cacheKey_def)
  have d: "getCurrentPrice ?e3 Map.empty ''ethereum'' = (Inr (Price 3500), Map.empty, 1)"
    using price_lookup [of Map.empty "''ethereum''" ?e3]
    by (simp add: cacheKey_def getSupportedCryptocurrencies_def)
  have f: "isl (getPrice ?e3 ''dogecoin'')" "\<not> isl (getPrice ?e3 ''bitcoin'')"
    using price_lookup [of Map.empty "''dogecoin''" ?e3]
      price_lookup [of Map.empty "''bitcoin''" ?e3]
    by (simp_all add: getSupportedCryptocurrencies_def)
  from a b c d f show ?thesis by blast
qed

section \<open>Transfers\<close>




section \<open>Placing a wager\<close>

text \<open>
  The computed stake amount can lie below the exact quotient, as for 250 USD at 67000. A
  player whose balance is the computed amount passes the balance check and is left with 0.
\<close>

lemma rounded_stake_below_quotient: "double (250 / 67000) < 250 / 67000"
  by (simp add: double_def ulp_def exponent_def rne_def bit_length.simps)

lemma placeBet_all_in:
  assumes "currentRound w = Some r" and "status r = waiting" and "0 < usdAmount"
    and "players w pid = Some pl"
    and "fst (getCurrentPrice (prices e) Map.empty (crypto_name c)) = Inr (Price p)"
    and "wallet pl c = double (usdAmount / p)"
    and "player_save_ok e pid" and "round_save_ok e 0"
    and "transaction_save_ok e (randomBytes e 0)"
  shows "\<exists>res w'. placeBet e w pid usdAmount c = (Inr res, w') \<and>
           map_option (\<lambda>q. wallet q c) (players w' pid) = Some 0"
  using assms fresh_price_nonzero [OF assms(5)]
  by (simp add: placeBet_def Let_def double_zero)

text \<open>
  C5: when the player's balance in the chosen asset is below the computed stake amount, the
  double that the stake divided by the looked-up price evaluates to, \<open>placeBet\<close> is rejected
  and the state (balances, the round's wagers, transactions, broadcasts) is unchanged; with a
  round in its betting window and a positive stake the rejection is the insufficient-balance
  one.
\<close>

theorem placeBet_insufficient_balance:
  assumes "players w pid = Some pl"
    and "fst (getCurrentPrice (prices e) Map.empty (crypto_name c)) = Inr (Price p)"
    and "wallet pl c < double (usdAmount / p)"
  shows "(\<exists>err. placeBet e w pid usdAmount c = (Inl err, w)) \<and>
         (\<forall>r. currentRound w = Some r \<and> status r = waiting \<and> 0 < usdAmount
            \<longrightarrow> placeBet e w pid usdAmount c = (Inl InsufficientBalance, w))"
  using assms by (auto simp: placeBet_def split: option.splits)

theorem placeBet_insufficient_balance_witness:
  "players demo_world ''bob'' = Some (demo_player ''bob'' 0) \<and>
   fst (getCurrentPrice (prices (demo_env (\<lambda>p. True))) Map.empty (crypto_name Bitcoin))
     = Inr (Price 67000) \<and>
   wallet (demo_player ''bob'' 0) Bitcoin < double (10 / 67000) \<and>
   currentRound demo_world = Some demo_round \<and> status demo_round = waiting \<and>
   placeBet (demo_env (\<lambda>p. True)) demo_world ''bob'' 10 Bitcoin
     = (Inl InsufficientBalance, demo_world)"
proof -
  have a: "players demo_world ''bob'' = Some (demo_player ''bob'' 0)"
    by (simp add: demo_world_def)
  have b: "fst (getCurrentPrice (prices (demo_env (\<lambda>p. True))) Map.empty (crypto_name Bitcoin))
             = Inr (Price 67000)"
    by (simp add: demo_env_def getCurrentPrice_def fresh_entry_def fetch_quote_def
        fallbackPrices_def)
  have c: "wallet (demo_player ''bob'' 0) Bitcoin < double (10 / 67000)"
    by (simp add: demo_player_def double_def ulp_def exponent_def rne_def bit_length.simps)
  have d: "currentRound demo_world = Some demo_round \<and> status demo_round = waiting"
    by (simp add: demo_world_def demo_round_def)
  from placeBet_insufficient_balance [OF a b c] a b c d show ?thesis by simp
qed

text \<open>
  C2, as stated, fails: \<open>placeBet\<close> never looks at the wagers already in the round. Alice has
  an open wager in the round; her second call is accepted and the round then holds two open
  wagers of hers.
\<close>

theorem second_wager_counterexample:
  "map_option (\<lambda>r. length (filter (openBet ''alice'') (bets r))) (currentRound betting_world)
     = Some 1 \<and>
   \<not> isl (fst (placeBet (demo_env (\<lambda>p. True)) betting_world ''alice'' 100 Bitcoin)) \<and>
   map_option (\<lambda>r. length (filter (openBet ''alice'') (bets r)))
     (currentRound (snd (placeBet (demo_env (\<lambda>p. True)) betting_world ''alice'' 100 Bitcoin)))
     = Some 2"
  by (simp add: placeBet_def demo_env_def betting_world_def demo_world_def demo_round_def
      demo_player_def demo_bet_def getCurrentPrice_def fresh_entry_def fetch_quote_def
      fallbackPrices_def openBet_def Let_def
      double_def ulp_def exponent_def rne_def bit_length.simps)

text \<open>
  C2, amended: a second \<open>placeBet\<close> by a player who already has an open wager in the round is
  decided by the same checks as the first (betting window, positive stake, known player,
  a balance not below the computed stake amount, successful writes); when they pass it is
  accepted and a second open wager of the player is appended to the round's list.
\<close>

theorem placeBet_accepts_second_wager:
  assumes "currentRound w = Some r" and "status r = waiting"
    and "b0 \<in> set (bets r)" and "openBet pid b0"
    and "0 < usdAmount"
    and "players w pid = Some pl"
    and "fst (getCurrentPrice (prices e) Map.empty (crypto_name c)) = Inr (Price p)"
    and "double (usdAmount / p) \<le> wallet pl c"
    and "player_save_ok e pid" and "round_save_ok e 0"
    and "transaction_save_ok e (randomBytes e 0)"
  shows "\<exists>res w' r'. placeBet e w pid usdAmount c = (Inr res, w') \<and>
           currentRound w' = Some r' \<and> bets r' = bets r @ [br_bet res] \<and>
           b0 \<in> set (bets r') \<and> openBet pid (br_bet res) \<and>
           b_cryptoAmount (br_bet res) = double (usdAmount / p)"
  using assms fresh_price_nonzero [OF assms(7)]
  by (simp add: placeBet_def Let_def openBet_def)

theorem placeBet_accepts_second_wager_witness:
  "\<exists>res w' r'. placeBet (demo_env (\<lambda>p. True)) betting_world ''alice'' 100 Bitcoin = (Inr res, w') \<and>
     currentRound w' = Some r' \<and> bets r' = [demo_bet, br_bet res] \<and>
     openBet ''alice'' demo_bet \<and> openBet ''alice'' (br_bet res) \<and>
     b_cryptoAmount (br_bet res) = double (100 / 67000)"
proof -
  let ?E = "demo_env (\<lambda>p. True)"
  have 1: "currentRound betting_world = Some (demo_round\<lparr>bets := [demo_bet]\<rparr>)"
    by (simp add: betting_world_def)
  have 2: "status (demo_round\<lparr>bets := [demo_bet]\<rparr>) = waiting"
    by (simp add: demo_round_def)
  have 3: "demo_bet \<in> set (bets (demo_round\<lparr>bets := [demo_bet]\<rparr>))" by simp
  have 4: "openBet ''alice'' demo_bet" by (simp add: openBet_def demo_bet_def)
  have 5: "(0::real) < 100" by simp
  have 6: "players betting_world ''alice'' = Some (demo_player ''alice'' 1)"
    by (simp add: betting_world_def demo_world_def)
  have 7: "fst (getCurrentPrice (prices ?E) Map.empty (crypto_name Bitcoin)) = Inr (Price 67000)"
    by (simp add: demo_env_def getCurrentPrice_def fresh_entry_def fetch_quote_def
        fallbackPrices_def)
  have 8: "double (100 / 67000) \<le> wallet (demo_player ''alice'' 1) Bitcoin"
    by (simp add: demo_player_def double_def ulp_def exponent_def rne_def bit_length.simps)
  have 9: "player_save_ok ?E ''alice''" "round_save_ok ?E 0"
    "transaction_save_ok ?E (randomBytes ?E 0)"
    by (simp_all add: demo_env_def)
  from placeBet_accepts_second_wager [OF 1 2 3 4 5 6 7 8 9] 4 show ?thesis by auto
qed

section \<open>Cashing out\<close>





section \<open>The multiplier\<close>

lemma targetTime_zero_iff: "0 < cp \<Longrightarrow> targetTime cp = 0 \<longleftrightarrow> cp = 1"
  by (simp add: targetTime_def)

lemma targetTime_pos: "1 < cp \<Longrightarrow> 0 < targetTime cp"
  by (simp add: targetTime_def)

lemma growthFactor_pos:
  assumes "1 < cp"
  shows "growthFactor cp = Some ((cp - 1) / targetTime cp) \<and> 0 < (cp - 1) / targetTime cp"
  using assms targetTime_pos [OF assms] by (simp add: growthFactor_def)

lemma multiplierAt_reaches:
  assumes "1 < cp" and "targetTime cp \<le> elapsed"
  shows "\<exists>m. multiplierAt cp elapsed = Some m \<and> cp \<le> m"
proof -
  have T: "0 < targetTime cp" by (rule targetTime_pos [OF assms(1)])
  have "1 \<le> elapsed / targetTime cp" using T assms(2) by simp
  then have "(cp - 1) * 1 \<le> (cp - 1) * (elapsed / targetTime cp)"
    using assms(1) by (intro mult_left_mono) auto
  then have "cp \<le> 1 + elapsed * ((cp - 1) / targetTime cp)"
    by (simp add: mult.commute)
  then show ?thesis
    using growthFactor_pos [OF assms(1)] by (simp add: multiplierAt_def)
qed

lemma crash_point_one:
  assumes "first32 (H (s @ toString n)) = 0"
  shows "generateCrashPoint H env s n = Some 1"
  using assms by (simp add: generateCrashPoint_eq clampedCrash_def round2_def)

lemma crashGame_ends:
  "isGameActive w \<Longrightarrow> currentRound w = Some r \<Longrightarrow>
   \<not> isGameActive (snd (crashGame e w)) \<and>
   (\<exists>r'. currentRound (snd (crashGame e w)) = Some r' \<and> status r' \<in> {crashed, completed})"
  by (simp add: crashGame_def Let_def)

lemma updateMultiplier_crashes:
  assumes "isGameActive w" and "currentRound w = Some r" and "1 < crashPoint r"
    and "targetTime (crashPoint r) \<le> elapsedSeconds e w"
  shows "\<not> isGameActive (updateMultiplier e w) \<and>
         (\<exists>r'. currentRound (updateMultiplier e w) = Some r' \<and> status r' \<in> {crashed, completed})"
proof -
  obtain m where m: "multiplierAt (crashPoint r) (elapsedSeconds e w) = Some m"
    and le: "crashPoint r \<le> m"
    using multiplierAt_reaches [OF assms(3,4)] by blast
  let ?r1 = "if m > maxMultiplier r then r\<lparr>maxMultiplier := m\<rparr> else r"
  let ?w1 = "w\<lparr>currentMultiplier := Some m, currentRound := Some ?r1\<rparr>"
  have "updateMultiplier e w = snd (crashGame e ?w1)"
    using assms(1,2) m le by (simp add: updateMultiplier_def Let_def)
  moreover have "isGameActive ?w1" "currentRound ?w1 = Some ?r1" using assms(1) by simp_all
  ultimately show ?thesis using crashGame_ends [of ?w1 ?r1 e] by simp
qed

lemma updateMultiplier_at_one:
  assumes "isGameActive w" and "currentRound w = Some r" and "crashPoint r = 1"
  shows "isGameActive (updateMultiplier e w) \<and> currentMultiplier (updateMultiplier e w) = None"
  using assms by (simp add: updateMultiplier_def multiplierAt_def growthFactor_def targetTime_def Let_def)

section \<open>Round identifiers\<close>

lemma toString_nonempty: "toString n \<noteq> []"
  by (subst toString.simps) simp

lemma toString_digits: "c \<in> set (toString n) \<Longrightarrow> c \<noteq> CHR ''_''"
proof (induction n rule: toString.induct)
  case (1 n)
  show ?case
  proof (cases "n < 10")
    case True
    with "1.prems" have "c = char_of (48 + n)" by (subst (asm) toString.simps) simp
    then have "of_char c = (48 + n) mod 256" by simp
    with True show ?thesis by auto
  next
    case False
    with "1.prems" have "c \<in> set (toString (n div 10)) \<or> c = char_of (48 + n mod 10)"
      by (subst (asm) toString.simps) auto
    then show ?thesis
    proof
      assume "c \<in> set (toString (n div 10))"
      with "1.IH" False show ?thesis by simp
    next
      assume "c = char_of (48 + n mod 10)"
      then have "of_char c = (48 + n mod 10) mod 256" by simp
      moreover have "n mod 10 < 10" by simp
      ultimately show ?thesis by auto
    qed
  qed
qed

lemma digit_char_inj:
  assumes "char_of (48 + a) = (char_of (48 + b) :: char)" and "a < 10" and "b < 10"
  shows "a = (b::nat)"
proof -
  have "(of_char (char_of (48 + a) :: char) :: nat) = of_char (char_of (48 + b) :: char)"
    using assms(1) by simp
  then have "(48 + a) mod 256 = (48 + b) mod 256" by simp
  with assms(2,3) show ?thesis by simp
qed

lemma toString_inj: "toString m = toString n \<Longrightarrow> m = n"
proof (induction m arbitrary: n rule: toString.induct)
  case (1 m)
  show ?case
  proof (cases "m < 10")
    case m: True
    show ?thesis
    proof (cases "n < 10")
      case True
      with m "1.prems" have "char_of (48 + m) = (char_of (48 + n) :: char)"
        by (simp add: toString.simps [of m] toString.simps [of n])
      then show ?thesis using m True by (rule digit_char_inj)
    next
      case False
      with m "1.prems" have "[char_of (48 + m)] = toString (n div 10) @ [char_of (48 + n mod 10)]"
        by (simp add: toString.simps [of m] toString.simps [of n])
      then have "toString (n div 10) = []" by simp
      then show ?thesis using toString_nonempty by blast
    qed
  next
    case m: False
    show ?thesis
    proof (cases "n < 10")
      case True
      with m "1.prems" have "toString (m div 10) @ [char_of (48 + m mod 10)] = [char_of (48 + n)]"
        by (simp add: toString.simps [of m] toString.simps [of n])
      then have "toString (m div 10) = []" by simp
      then show ?thesis using toString_nonempty by blast
    next
      case False
      with m "1.prems" have
        "toString (m div 10) @ [char_of (48 + m mod 10)]
           = toString (n div 10) @ [char_of (48 + n mod 10)]"
        by (simp add: toString.simps [of m] toString.simps [of n])
      then have a: "toString (m div 10) = toString (n div 10)"
        and b: "char_of (48 + m mod 10) = (char_of (48 + n mod 10) :: char)"
        by simp_all
      from "1.IH" [OF m a] have d: "m div 10 = n div 10" .
      have md: "m mod 10 = n mod 10" using b by (rule digit_char_inj) simp_all
      have "m = 10 * (m div 10) + m mod 10" by simp
      also have "\<dots> = 10 * (n div 10) + n mod 10" using d md by simp
      also have "\<dots> = n" by simp
      finally show ?thesis .
    qed
  qed
qed

lemma suffix_after_last:
  assumes "xs @ c # ys = xs' @ c # ys'" and "c \<notin> set ys" and "c \<notin> set ys'"
  shows "ys = ys'"
proof -
  have tw: "takeWhile (\<lambda>x. x \<noteq> c) (rev zs @ c # us) = rev zs" if "c \<notin> set zs" for zs us
  proof -
    have "\<And>x. x \<in> set (rev zs) \<Longrightarrow> x \<noteq> c" using that by auto
    then have "takeWhile (\<lambda>x. x \<noteq> c) (rev zs @ c # us)
                 = rev zs @ takeWhile (\<lambda>x. x \<noteq> c) (c # us)"
      by (rule takeWhile_append2)
    then show ?thesis by simp
  qed
  have "takeWhile (\<lambda>x. x \<noteq> c) (rev (xs @ c # ys)) = rev ys"
    using tw [OF assms(2)] by simp
  moreover have "takeWhile (\<lambda>x. x \<noteq> c) (rev (xs' @ c # ys')) = rev ys'"
    using tw [OF assms(3)] by simp
  ultimately have "rev ys = rev ys'" using assms(1) by simp
  then show ?thesis by simp
qed

lemma mkRoundId_number: "mkRoundId t n = mkRoundId t' n' \<Longrightarrow> n = n'"
proof -
  assume "mkRoundId t n = mkRoundId t' n'"
  then have "(''round_'' @ toString t) @ CHR ''_'' # toString n
           = (''round_'' @ toString t') @ CHR ''_'' # toString n'"
    by (simp add: mkRoundId_def)
  moreover have "CHR ''_'' \<notin> set (toString n)" "CHR ''_'' \<notin> set (toString n')"
    using toString_digits by blast+
  ultimately have "toString n = toString n'"
    by (rule suffix_after_last)
  then show ?thesis by (rule toString_inj)
qed

section \<open>Commitment and reveal\<close>

lemma keeps_refl: "keeps w w"
  by (simp add: keeps_def)

lemma allowed_after_cong:
  "map_option commitment (currentRound w1) = map_option commitment (currentRound w) \<Longrightarrow>
   allowed_after w1 m = allowed_after w m"
  by (cases "currentRound w1"; cases "currentRound w")
     (auto simp: allowed_after_def commitment_def split: message.splits)

lemma keeps_trans: "keeps w w1 \<Longrightarrow> keeps w1 w2 \<Longrightarrow> keeps w w2"
  unfolding keeps_def
  apply (elim conjE exE)
  subgoal for ms ms'
    apply (intro conjI)
      apply simp
     apply simp
    apply (rule exI [of _ "ms @ ms'"])
    using allowed_after_cong [of w1 w] by auto
  done

lemma keeps_placeBet: "keeps w (snd (placeBet e w pid usdAmount c))"
  by (auto simp: keeps_def placeBet_def Let_def commitment_def allowed_after_def
      split: option.splits sum.splits returned_value.splits)

lemma keeps_cashOut: "keeps w (snd (cashOut e w pid))"
  by (auto simp: keeps_def cashOut_def Let_def commitment_def allowed_after_def
      split: option.splits)

lemma keeps_transferCrypto: "keeps w (snd (transferCrypto e w src dst d a))"
  by (auto simp: keeps_def transferCrypto_def Let_def
      split: option.splits sum.splits returned_value.splits prod.splits)

lemma keeps_startMultiplier: "keeps w (startMultiplier e w)"
  by (auto simp: keeps_def startMultiplier_def Let_def commitment_def split: option.splits)

lemma keeps_crashGame: "keeps w (snd (crashGame e w))"
  by (auto simp: keeps_def crashGame_def Let_def commitment_def allowed_after_def
      split: option.splits)

lemma keeps_updateMultiplier: "keeps w (updateMultiplier e w)"
proof (cases "isGameActive w")
  case False
  then show ?thesis by (simp add: updateMultiplier_def keeps_refl)
next
  case True
  show ?thesis
  proof (cases "currentRound w")
    case None
    with True show ?thesis by (simp add: updateMultiplier_def keeps_refl)
  next
    case (Some r)
    let ?m = "multiplierAt (crashPoint r) (elapsedSeconds e w)"
    let ?r1 = "case ?m of None \<Rightarrow> r
               | Some v \<Rightarrow> if v > maxMultiplier r then r\<lparr>maxMultiplier := v\<rparr> else r"
    let ?w1 = "w\<lparr>currentMultiplier := ?m, currentRound := Some ?r1\<rparr>"
    have c: "commitment ?r1 = commitment r"
      by (simp add: commitment_def split: option.splits)
    have k1: "keeps w ?w1"
      using Some c by (simp add: keeps_def)
    have "updateMultiplier e w = snd (crashGame e ?w1) \<or>
          updateMultiplier e w = ?w1\<lparr>broadcasts := broadcasts ?w1 @
                 [multiplier_update (roundId ?r1) (map_option round2 ?m) (now e)]\<rparr>"
      using True Some by (simp add: updateMultiplier_def Let_def)
    then show ?thesis
    proof
      assume "updateMultiplier e w = snd (crashGame e ?w1)"
      then show ?thesis using keeps_trans [OF k1 keeps_crashGame [of ?w1 e]] by simp
    next
      assume u: "updateMultiplier e w = ?w1\<lparr>broadcasts := broadcasts ?w1 @
                 [multiplier_update (roundId ?r1) (map_option round2 ?m) (now e)]\<rparr>"
      show ?thesis
        unfolding u using Some c by (simp add: keeps_def allowed_after_def)
    qed
  qed
qed

lemma inv_keeps:
  assumes inv: "engine_inv H mc w" and k: "keeps w w'"
  shows "engine_inv H mc w'"
proof -
  from k obtain ms where cnt: "roundCounter w' = roundCounter w"
    and com: "map_option commitment (currentRound w') = map_option commitment (currentRound w)"
    and bs: "broadcasts w' = broadcasts w @ ms" and ms: "\<forall>m \<in> set ms. allowed_after w m"
    by (auto simp: keeps_def)
  have same: "\<exists>r. currentRound w = Some r \<and> commitment r = commitment r'"
    if "currentRound w' = Some r'" for r'
    using com that by (cases "currentRound w") auto
  have started: "round_started rid h t \<in> set (broadcasts w)"
    if "round_started rid h t \<in> set (broadcasts w')" for rid h t
    using that ms by (auto simp: bs allowed_after_def)
  have crashed_new: "game_crashed rid cp sd t \<in> set (broadcasts w) \<or>
      (\<exists>r. currentRound w = Some r \<and> rid = roundId r \<and> cp = crashPoint r \<and> sd = seed r)"
    if "game_crashed rid cp sd t \<in> set (broadcasts w')" for rid cp sd t
  proof (cases "game_crashed rid cp sd t \<in> set ms")
    case True
    with ms have "allowed_after w (game_crashed rid cp sd t)" by blast
    then show ?thesis by (simp add: allowed_after_def split: option.splits)
  next
    case False
    with that show ?thesis by (simp add: bs)
  qed
  have 1: "committed H mc (roundCounter w') r' \<and> (\<exists>t. roundId r' = mkRoundId t (roundCounter w'))"
    if "currentRound w' = Some r'" for r'
  proof -
    from same [OF that] obtain r where r: "currentRound w = Some r" "commitment r = commitment r'"
      by blast
    with inv have "committed H mc (roundCounter w) r \<and> (\<exists>t. roundId r = mkRoundId t (roundCounter w))"
      by (simp add: engine_inv_def)
    with r(2) cnt show ?thesis by (simp add: committed_def commitment_def)
  qed
  have 2: "(\<exists>n t0. n \<le> roundCounter w' \<and> rid = mkRoundId t0 n) \<and>
        (\<forall>r. currentRound w' = Some r \<and> roundId r = rid \<longrightarrow> h = hash r)"
    if "round_started rid h t \<in> set (broadcasts w')" for rid h t
  proof -
    from started [OF that] inv have
      a: "\<exists>n t0. n \<le> roundCounter w \<and> rid = mkRoundId t0 n"
      and b: "\<forall>r. currentRound w = Some r \<and> roundId r = rid \<longrightarrow> h = hash r"
      unfolding engine_inv_def by blast+
    have "h = hash r'" if "currentRound w' = Some r'" "roundId r' = rid" for r'
    proof -
      from same [OF that(1)] obtain r where "currentRound w = Some r" "commitment r = commitment r'"
        by blast
      with b that(2) show ?thesis by (auto simp: commitment_def)
    qed
    with a cnt show ?thesis by auto
  qed
  have 3: "\<exists>n t0. n \<le> roundCounter w' \<and> rid = mkRoundId t0 n \<and>
           generateCrashPoint H mc sd n = Some cp \<and>
           (\<forall>h t'. round_started rid h t' \<in> set (broadcasts w') \<longrightarrow> h = generateHash H sd n)"
    if "game_crashed rid cp sd t \<in> set (broadcasts w')" for rid cp sd t
    using crashed_new [OF that]
  proof
    assume "game_crashed rid cp sd t \<in> set (broadcasts w)"
    with inv obtain n t0 where "n \<le> roundCounter w" "rid = mkRoundId t0 n"
      "generateCrashPoint H mc sd n = Some cp"
      "\<forall>h t'. round_started rid h t' \<in> set (broadcasts w) \<longrightarrow> h = generateHash H sd n"
      unfolding engine_inv_def by blast
    with cnt started show ?thesis by metis
  next
    assume "\<exists>r. currentRound w = Some r \<and> rid = roundId r \<and> cp = crashPoint r \<and> sd = seed r"
    then obtain r where r: "currentRound w = Some r" "rid = roundId r" "cp = crashPoint r"
      "sd = seed r" by blast
    with inv obtain t0 where c: "committed H mc (roundCounter w) r"
      and id: "roundId r = mkRoundId t0 (roundCounter w)"
      unfolding engine_inv_def by blast
    have "h = generateHash H sd (roundCounter w)"
      if "round_started rid h t' \<in> set (broadcasts w')" for h t'
    proof -
      from started [OF that] inv r(1,2) have "h = hash r"
        unfolding engine_inv_def by blast
      with c r(4) show ?thesis by (simp add: committed_def)
    qed
    with c id r cnt show ?thesis
      by (intro exI [of _ "roundCounter w"] exI [of _ t0]) (simp add: committed_def)
  qed
  show ?thesis
    unfolding engine_inv_def using 1 2 3 by blast
qed

lemma inv_opens:
  assumes inv: "engine_inv H mc w" and o: "opens H mc w w'"
  shows "engine_inv H mc w'"
proof -
  from o obtain r t where cnt: "roundCounter w' = roundCounter w + 1"
    and r: "currentRound w' = Some r" and c: "committed H mc (roundCounter w') r"
    and id: "roundId r = mkRoundId t (roundCounter w')"
    and bs: "broadcasts w' = broadcasts w \<or>
             broadcasts w' = broadcasts w @ [round_started (roundId r) (hash r) t]"
    by (auto simp: opens_def)
  have old_id: "rid \<noteq> roundId r" if "n \<le> roundCounter w" "rid = mkRoundId t0 n" for rid n t0
  proof
    assume "rid = roundId r"
    with that(2) id have "mkRoundId t0 n = mkRoundId t (roundCounter w')" by simp
    then have "n = roundCounter w'" by (rule mkRoundId_number)
    with that(1) cnt show False by simp
  qed
  have started: "round_started rid h t' \<in> set (broadcasts w) \<or> (rid = roundId r \<and> h = hash r)"
    if "round_started rid h t' \<in> set (broadcasts w')" for rid h t'
    using that bs by auto
  have crashed_old: "game_crashed rid cp sd t' \<in> set (broadcasts w)"
    if "game_crashed rid cp sd t' \<in> set (broadcasts w')" for rid cp sd t'
    using that bs by auto
  have 2: "(\<exists>n t0. n \<le> roundCounter w' \<and> rid = mkRoundId t0 n) \<and>
        (\<forall>r'. currentRound w' = Some r' \<and> roundId r' = rid \<longrightarrow> h = hash r')"
    if "round_started rid h t' \<in> set (broadcasts w')" for rid h t'
    using started [OF that]
  proof
    assume "round_started rid h t' \<in> set (broadcasts w)"
    with inv obtain n t0 where n: "n \<le> roundCounter w" "rid = mkRoundId t0 n"
      unfolding engine_inv_def by blast
    have "\<exists>n t0. n \<le> roundCounter w' \<and> rid = mkRoundId t0 n"
      using n cnt by (intro exI [of _ n] exI [of _ t0]) simp
    moreover have "\<forall>r'. currentRound w' = Some r' \<and> roundId r' = rid \<longrightarrow> h = hash r'"
      using old_id [OF n] r by auto
    ultimately show ?thesis by blast
  next
    assume "rid = roundId r \<and> h = hash r"
    with r id show ?thesis by auto
  qed
  have 3: "\<exists>n t0. n \<le> roundCounter w' \<and> rid = mkRoundId t0 n \<and>
           generateCrashPoint H mc sd n = Some cp \<and>
           (\<forall>h t'. round_started rid h t' \<in> set (broadcasts w') \<longrightarrow> h = generateHash H sd n)"
    if "game_crashed rid cp sd t' \<in> set (broadcasts w')" for rid cp sd t'
  proof -
    from crashed_old [OF that] inv obtain n t0 where n: "n \<le> roundCounter w"
      "rid = mkRoundId t0 n" and g: "generateCrashPoint H mc sd n = Some cp"
      and h: "\<forall>h t'. round_started rid h t' \<in> set (broadcasts w) \<longrightarrow> h = generateHash H sd n"
      unfolding engine_inv_def by blast
    have "h' = generateHash H sd n" if "round_started rid h' t'' \<in> set (broadcasts w')" for h' t''
      using started [OF that] h old_id [OF n] by blast
    with n g cnt show ?thesis
      by (intro exI [of _ n] exI [of _ t0]) simp
  qed
  show ?thesis
    unfolding engine_inv_def using r c id 2 3 by auto
qed

lemma startNewRound_cases:
  "keeps w (startNewRound H mc e w) \<or>
   (\<exists>w0. keeps w w0 \<and> opens H mc w0 (startNewRound H mc e w))"
proof -
  obtain ended w0 where run:
    "(if currentRound w \<noteq> None \<and> isGameActive w then crashGame e w else (True, w)) = (ended, w0)"
    by fastforce
  have k: "keeps w w0"
    using run keeps_crashGame [of w e] by (auto simp: keeps_refl split: if_splits)
  show ?thesis
  proof (cases ended)
    case False
    with run have "startNewRound H mc e w = w0" by (simp add: startNewRound_def)
    with k show ?thesis by simp
  next
    case True
    obtain cp where cp: "generateCrashPoint H mc (randomBytes e 0) (Suc (roundCounter w0)) = Some cp"
      by (simp add: generateCrashPoint_eq)
    have "opens H mc w0 (startNewRound H mc e w)"
      using run True cp
      by (auto simp: startNewRound_def opens_def committed_def Let_def)
    with k show ?thesis by blast
  qed
qed

lemma step_cases:
  "step H mc w w' \<Longrightarrow> keeps w w' \<or> (\<exists>w0. keeps w w0 \<and> opens H mc w0 w')"
  by (induction rule: step.induct)
     (simp_all add: startNewRound_cases keeps_startMultiplier keeps_updateMultiplier
        keeps_crashGame keeps_placeBet keeps_cashOut keeps_transferCrypto)

lemma reachable_inv: "reachable H mc w \<Longrightarrow> engine_inv H mc w"
proof (induction rule: reachable.induct)
  case (reachable_initial w)
  then show ?case by (simp add: initial_def engine_inv_def)
next
  case (reachable_step w w')
  from step_cases [OF reachable_step.hyps(2)] reachable_step.IH show ?case
    using inv_keeps inv_opens by blast
qed

text \<open>
  C8: in every reachable state the current round's hash is the hash of its seed and number
  and its crash point is the one derived from them; whenever the broadcast log holds both the
  announcement of a round and its crash message, the announced hash is the hash of the
  revealed seed and of the number in the round's id, and the revealed crash point is the one
  derived from them; and every step either keeps the current round's id, seed, hash and
  crash point or replaces the round by a newly numbered one.
\<close>

theorem commit_reveal_consistency:
  assumes "reachable H mc w"
  shows "(\<forall>r. currentRound w = Some r \<longrightarrow>
            hash r = generateHash H (seed r) (roundCounter w) \<and>
            generateCrashPoint H mc (seed r) (roundCounter w) = Some (crashPoint r)) \<and>
         (\<forall>rid h t cp sd t'.
            round_started rid h t \<in> set (broadcasts w) \<and>
            game_crashed rid cp sd t' \<in> set (broadcasts w) \<longrightarrow>
            (\<exists>n t0. rid = mkRoundId t0 n \<and> h = generateHash H sd n \<and>
                    generateCrashPoint H mc sd n = Some cp)) \<and>
         (\<forall>w' r. step H mc w w' \<and> currentRound w = Some r \<longrightarrow>
            (\<exists>r'. currentRound w' = Some r' \<and>
               (commitment r' = commitment r \<or> roundCounter w' = roundCounter w + 1)))"
proof -
  have inv: "engine_inv H mc w" by (rule reachable_inv [OF assms])
  have 1: "hash r = generateHash H (seed r) (roundCounter w) \<and>
            generateCrashPoint H mc (seed r) (roundCounter w) = Some (crashPoint r)"
    if "currentRound w = Some r" for r
    using inv that by (auto simp: engine_inv_def committed_def)
  have 2: "\<exists>n t0. rid = mkRoundId t0 n \<and> h = generateHash H sd n \<and>
                    generateCrashPoint H mc sd n = Some cp"
    if "round_started rid h t \<in> set (broadcasts w)" "game_crashed rid cp sd t' \<in> set (broadcasts w)"
    for rid h t cp sd t'
  proof -
    from inv that(2) obtain n t0 where "rid = mkRoundId t0 n"
      "generateCrashPoint H mc sd n = Some cp"
      "\<forall>h t'. round_started rid h t' \<in> set (broadcasts w) \<longrightarrow> h = generateHash H sd n"
      unfolding engine_inv_def by blast
    with that(1) show ?thesis by blast
  qed
  have 3: "\<exists>r'. currentRound w' = Some r' \<and>
               (commitment r' = commitment r \<or> roundCounter w' = roundCounter w + 1)"
    if "step H mc w w'" "currentRound w = Some r" for w' r
    using step_cases [OF that(1)]
  proof
    assume "keeps w w'"
    then have "map_option commitment (currentRound w') = Some (commitment r)"
      using that(2) by (simp add: keeps_def)
    then show ?thesis by auto
  next
    assume "\<exists>w0. keeps w w0 \<and> opens H mc w0 w'"
    then show ?thesis by (auto simp: keeps_def opens_def)
  qed
  from 1 2 3 show ?thesis by blast
qed

lemma played_world_broadcasts:
  "broadcasts (played_world (\<lambda>x. 0)) =
     [round_started (mkRoundId 2000 1) (generateHash (\<lambda>x. 0) ''a0'' 1) 2000,
      game_crashed (mkRoundId 2000 1) 1 ''a0'' 2000]"
proof -
  have "generateCrashPoint (\<lambda>x. 0) None ''a0'' (Suc 0) = Some 1"
    by (rule crash_point_one) (simp add: first32_zero)
  then show ?thesis
    by (simp add: played_world_def crashGame_def startMultiplier_def startNewRound_def
        fresh_world_def demo_env_def Let_def)
qed

lemma played_world_round:
  "map_option commitment (currentRound (played_world (\<lambda>x. 0)))
     = Some (mkRoundId 2000 1, ''a0'', generateHash (\<lambda>x. 0) ''a0'' 1, 1)"
proof -
  have "generateCrashPoint (\<lambda>x. 0) None ''a0'' (Suc 0) = Some 1"
    by (rule crash_point_one) (simp add: first32_zero)
  then show ?thesis
    by (simp add: played_world_def crashGame_def startMultiplier_def startNewRound_def
        fresh_world_def demo_env_def commitment_def Let_def)
qed

lemma played_world_counter: "roundCounter (played_world H) = 1"
  by (simp add: played_world_def crashGame_def startMultiplier_def startNewRound_def
      fresh_world_def demo_env_def generateCrashPoint_eq Let_def)

theorem commit_reveal_consistency_witness:
  "reachable (\<lambda>x. 0) None (played_world (\<lambda>x. 0)) \<and>
   round_started (mkRoundId 2000 1) (generateHash (\<lambda>x. 0) ''a0'' 1) 2000
     \<in> set (broadcasts (played_world (\<lambda>x. 0))) \<and>
   game_crashed (mkRoundId 2000 1) 1 ''a0'' 2000
     \<in> set (broadcasts (played_world (\<lambda>x. 0))) \<and>
   (\<exists>n t0. mkRoundId 2000 1 = mkRoundId t0 n \<and>
      generateHash (\<lambda>x. 0) ''a0'' 1 = generateHash (\<lambda>x. 0) ''a0'' n \<and>
      generateCrashPoint (\<lambda>x. 0) None ''a0'' n
        = Some 1) \<and>
   (\<exists>r. currentRound (played_world (\<lambda>x. 0)) = Some r \<and>
      hash r = generateHash (\<lambda>x. 0) (seed r) 1 \<and>
      generateCrashPoint (\<lambda>x. 0) None (seed r) 1 = Some (crashPoint r))"
proof -
  let ?H = "\<lambda>x :: string. 0 :: 256 word"
  let ?E = "demo_env (\<lambda>p. True)"
  have "initial fresh_world" by (simp add: initial_def fresh_world_def)
  then have "reachable ?H None fresh_world" by (rule reachable_initial)
  then have "reachable ?H None (startNewRound ?H None ?E fresh_world)"
    using step_startNewRound by (rule reachable_step)
  then have "reachable ?H None (startMultiplier ?E (startNewRound ?H None ?E fresh_world))"
    using step_startMultiplier by (rule reachable_step)
  then have r: "reachable ?H None (played_world ?H)"
    unfolding played_world_def using step_crashGame by (rule reachable_step)
  have a: "round_started (mkRoundId 2000 1) (generateHash ?H ''a0'' 1) 2000
             \<in> set (broadcasts (played_world ?H))"
    and b: "game_crashed (mkRoundId 2000 1) 1 ''a0'' 2000
             \<in> set (broadcasts (played_world ?H))"
    by (simp_all add: played_world_broadcasts)
  from commit_reveal_consistency [OF r] a b
  have "\<exists>n t0. mkRoundId 2000 1 = mkRoundId t0 n \<and>
      generateHash ?H ''a0'' 1 = generateHash ?H ''a0'' n \<and>
      generateCrashPoint ?H None ''a0'' n = Some 1"
    by blast
  moreover obtain r0 where r0: "currentRound (played_world ?H) = Some r0"
    using played_world_round by (cases "currentRound (played_world ?H)") auto
  with commit_reveal_consistency [OF r]
  have "hash r0 = generateHash ?H (seed r0) 1 \<and>
        generateCrashPoint ?H None (seed r0) 1 = Some (crashPoint r0)"
    by (simp add: played_world_counter)
  ultimately show ?thesis using r a b r0 by blast
qed


section \<open>Growth of the multiplier and the crash branch\<close>

text \<open>
  C10: the target time \<open>2 ln c\<close> of a positive crash point \<open>c\<close> is zero exactly at
  \<open>c = 1\<close>, where the growth factor is \<open>0 / 0\<close>; the derivation yields 1 when the leading
  32 bits of the digest are zero; for \<open>c > 1\<close> the division is well defined and the growth
  factor strictly positive, the multiplier reaches \<open>c\<close> once the elapsed time reaches the
  target time, and \<open>updateMultiplier\<close> then crashes the round.
\<close>

theorem multiplier_growth:
  "(\<forall>cp. 0 < cp \<longrightarrow> (targetTime cp = 0 \<longleftrightarrow> cp = 1)) \<and>
   growthFactor 1 = None \<and>
   (first32 (H (s @ toString n)) = 0 \<longrightarrow> generateCrashPoint H env s n = Some 1) \<and>
   (\<forall>cp. 1 < cp \<longrightarrow>
      targetTime cp \<noteq> 0 \<and>
      (\<exists>g. growthFactor cp = Some g \<and> g = (cp - 1) / targetTime cp \<and> 0 < g)) \<and>
   (\<forall>cp elapsed. 1 < cp \<and> targetTime cp \<le> elapsed \<longrightarrow>
      (\<exists>m. multiplierAt cp elapsed = Some m \<and> cp \<le> m)) \<and>
   (\<forall>e w r. isGameActive w \<and> currentRound w = Some r \<and> 1 < crashPoint r \<and>
        targetTime (crashPoint r) \<le> elapsedSeconds e w \<longrightarrow>
      \<not> isGameActive (updateMultiplier e w) \<and>
      (\<exists>r'. currentRound (updateMultiplier e w) = Some r' \<and> status r' \<in> {crashed, completed}))"
proof -
  have a: "\<forall>cp. 0 < cp \<longrightarrow> (targetTime cp = 0 \<longleftrightarrow> cp = 1)"
    using targetTime_zero_iff by blast
  have b: "growthFactor 1 = None" by (simp add: growthFactor_def targetTime_def)
  have c: "first32 (H (s @ toString n)) = 0 \<longrightarrow> generateCrashPoint H env s n = Some 1"
    using crash_point_one by blast
  have d: "\<forall>cp. 1 < cp \<longrightarrow>
      targetTime cp \<noteq> 0 \<and>
      (\<exists>g. growthFactor cp = Some g \<and> g = (cp - 1) / targetTime cp \<and> 0 < g)"
    using growthFactor_pos targetTime_pos by fastforce
  have e: "\<forall>cp elapsed. 1 < cp \<and> targetTime cp \<le> elapsed \<longrightarrow>
      (\<exists>m. multiplierAt cp elapsed = Some m \<and> cp \<le> m)"
    using multiplierAt_reaches by blast
  have f: "\<forall>e w r. isGameActive w \<and> currentRound w = Some r \<and> 1 < crashPoint r \<and>
        targetTime (crashPoint r) \<le> elapsedSeconds e w \<longrightarrow>
      \<not> isGameActive (updateMultiplier e w) \<and>
      (\<exists>r'. currentRound (updateMultiplier e w) = Some r' \<and> status r' \<in> {crashed, completed})"
    using updateMultiplier_crashes by blast
  from a b c d e f show ?thesis by blast
qed

theorem multiplier_growth_witness:
  "first32 (0 :: 256 word) = 0 \<and>
   generateCrashPoint (\<lambda>x. 0) None sample_seed 1 = Some 1 \<and>
   (0 :: real) < 1 \<and> targetTime 1 = 0 \<and>
   (1 :: real) < 2 \<and> targetTime 2 \<noteq> 0 \<and>
   (\<exists>g. growthFactor 2 = Some g \<and> 0 < g) \<and>
   targetTime 2 \<le> targetTime 2 + 1 \<and>
   (\<exists>m. multiplierAt 2 (targetTime 2 + 1) = Some m \<and> 2 \<le> m) \<and>
   isGameActive live_world \<and>
   map_option crashPoint (currentRound live_world) = Some 3 \<and>
   targetTime 3 \<le> elapsedSeconds (demo_env (\<lambda>p. True)\<lparr>now := 10000\<rparr>) live_world \<and>
   \<not> isGameActive (updateMultiplier (demo_env (\<lambda>p. True)\<lparr>now := 10000\<rparr>) live_world)"
proof -
  let ?E = "demo_env (\<lambda>p. True)\<lparr>now := 10000\<rparr>"
  let ?R = "demo_round\<lparr>status := active, bets := [demo_bet]\<rparr>"
  have z: "first32 (0 :: 256 word) = 0" by (rule first32_zero)
  have lt: "(1 :: real) < 2" by simp
  note mg = multiplier_growth [of "\<lambda>x. 0" sample_seed 1 None]
  from mg z have a: "generateCrashPoint (\<lambda>x. 0) None sample_seed 1 = Some 1" by blast
  from mg have b: "targetTime 1 = 0" by simp
  from mg lt have c: "targetTime 2 \<noteq> 0 \<and> (\<exists>g. growthFactor 2 = Some g \<and> 0 < g)"
    by blast
  have le: "targetTime 2 \<le> targetTime 2 + 1" by simp
  from mg lt le have d: "\<exists>m. multiplierAt 2 (targetTime 2 + 1) = Some m \<and> 2 \<le> m"
    by blast
  have act: "isGameActive live_world" and cur: "currentRound live_world = Some ?R"
    and cp: "crashPoint ?R = 3"
    by (simp_all add: live_world_def demo_round_def)
  have "ln (3 :: real) \<le> 3 - 1" by (rule ln_le_minus_one) simp
  then have T: "targetTime (crashPoint ?R) \<le> elapsedSeconds ?E live_world"
    by (simp add: cp targetTime_def elapsedSeconds_def live_world_def demo_env_def)
  have one: "1 < crashPoint ?R" by (simp add: cp)
  from mg act cur one T have e: "\<not> isGameActive (updateMultiplier ?E live_world)"
    by blast
  from a b c d e z lt le act cur T show ?thesis by (simp add: cp)
qed

end
